theory Spec2Isabelle
  imports Main "HOL-Library.Word" "HOL-Library.Sublist"
begin

unbundle bit_operations_syntax

section \<open>Rootless network bootstrap of libpod: \<open>networking_slirp4netns.go\<close>\<close>

text \<open>
  A shallow embedding of \<^verbatim>\<open>src/libpod/networking_slirp4netns.go\<close>. Go structs are
  records, \<^verbatim>\<open>uint32\<close>/\<^verbatim>\<open>uint16\<close>/\<^verbatim>\<open>byte\<close> are words,
  \<^verbatim>\<open>fmt.Errorf\<close> values are kept as format string plus arguments, and a runtime
  panic is a branch of the result of its own. What the file calls in Go's standard
  library and cannot be computed from the text of the program (address parsing, the
  interfaces of the host, sockets, pipes, the child process) is a parameter of the
  function that uses it.
\<close>

subsection \<open>Strings and numbers of the standard library\<close>

text \<open>\<^verbatim>\<open>strings.SplitN(s, sep, 2)\<close> for a one-byte separator: cut at the first occurrence.\<close>

fun cut :: "char \<Rightarrow> string \<Rightarrow> (string \<times> string) option" where
  "cut sep [] = None"
| "cut sep (c # cs) =
     (if c = sep then Some ([], cs)
      else (case cut sep cs of None \<Rightarrow> None | Some (a, b) \<Rightarrow> Some (c # a, b)))"

definition SplitN2 :: "string \<Rightarrow> char \<Rightarrow> string list" where
  "SplitN2 s sep = (case cut sep s of None \<Rightarrow> [s] | Some (a, b) \<Rightarrow> [a, b])"

text \<open>\<^verbatim>\<open>strings.Split(s, sep)\<close> for a one-byte separator: all the pieces, never an empty list.\<close>

fun Split :: "string \<Rightarrow> char \<Rightarrow> string list" where
  "Split [] sep = [[]]"
| "Split (c # cs) sep =
     (if c = sep then [] # Split cs sep
      else (case Split cs sep of [] \<Rightarrow> [[c]] | p # ps \<Rightarrow> (c # p) # ps))"

definition is_digit :: "char \<Rightarrow> bool" where
  "is_digit c = (48 \<le> (of_char c :: nat) \<and> (of_char c :: nat) \<le> 57)"

fun digits_value :: "nat \<Rightarrow> string \<Rightarrow> nat" where
  "digits_value n [] = n"
| "digits_value n (c # cs) = digits_value (n * 10 + (of_char c - 48)) cs"

text \<open>
  \<^verbatim>\<open>strconv.Atoi\<close> where \<^verbatim>\<open>int\<close> has 64 bits: an optional sign, then one or more decimal
  digits. The result is the value and whether \<^verbatim>\<open>err != nil\<close>; a syntax error comes with
  0, a range error with the nearest bound.
\<close>

definition Atoi :: "string \<Rightarrow> int \<times> bool" where
  "Atoi s =
     (let neg = (s \<noteq> [] \<and> hd s = CHR ''-'');
          ds = (if s \<noteq> [] \<and> (hd s = CHR ''-'' \<or> hd s = CHR ''+'') then tl s else s)
      in if ds = [] \<or> \<not> list_all is_digit ds then (0, True)
         else (let n = int (digits_value 0 ds)
               in if \<not> neg \<and> n \<ge> 2 ^ 63 then (2 ^ 63 - 1, True)
                  else if neg \<and> n > 2 ^ 63 then (- (2 ^ 63), True)
                  else (if neg then - n else n, False)))"

text \<open>The verb \<^verbatim>\<open>%d\<close> of \<^verbatim>\<open>fmt.Sprintf\<close> on an \<^verbatim>\<open>int\<close>.\<close>

fun decimal :: "nat \<Rightarrow> string" where
  "decimal n = (if n < 10 then [char_of (48 + n)]
                else decimal (n div 10) @ [char_of (48 + n mod 10)])"

declare decimal.simps [simp del]

definition Sprintf_d :: "int \<Rightarrow> string" where
  "Sprintf_d i = (if i < 0 then CHR ''-'' # decimal (nat (- i)) else decimal (nat i))"

subsection \<open>Addresses of package \<open>net\<close>\<close>

type_synonym byte = "8 word"

text \<open>\<^verbatim>\<open>net.IP\<close> is a byte slice; \<^verbatim>\<open>nil\<close> is \<open>None\<close> where a function may return it.\<close>

type_synonym IP = "byte list"

record IPNet =
  IP :: IP
  Mask :: "byte list"

definition v4InV6Prefix :: "byte list" where
  "v4InV6Prefix = [0, 0, 0, 0, 0, 0, 0, 0, 0, 0, 0xff, 0xff]"

text \<open>
  \<^verbatim>\<open>IP.To4\<close>: a 4-byte slice is returned as it is, a 16-byte slice that starts with the
  IPv4-in-IPv6 prefix gives its last four bytes, anything else gives \<^verbatim>\<open>nil\<close>.
\<close>

definition To4 :: "IP \<Rightarrow> IP option" where
  "To4 ip =
     (if length ip = 4 then Some ip
      else if length ip = 16 \<and> take 12 ip = v4InV6Prefix then Some (drop 12 ip)
      else None)"

text \<open>\<^verbatim>\<open>net.IPv4(a, b, c, d)\<close>: the 16-byte form of an IPv4 address.\<close>

definition IPv4 :: "byte \<Rightarrow> byte \<Rightarrow> byte \<Rightarrow> byte \<Rightarrow> IP" where
  "IPv4 a b c d = v4InV6Prefix @ [a, b, c, d]"

text \<open>
  \<^verbatim>\<open>networkNumberAndMask\<close> and \<^verbatim>\<open>IPNet.Contains\<close> of package \<open>net\<close>. The pair
  \<^verbatim>\<open>(nil, nil)\<close> is \<open>None\<close>; \<open>Contains\<close> then compares against an empty network number.
\<close>

definition networkNumberAndMask :: "IPNet \<Rightarrow> (IP \<times> byte list) option" where
  "networkNumberAndMask n =
     (case (case To4 (IP n) of
              Some ip4 \<Rightarrow> Some ip4
            | None \<Rightarrow> if length (IP n) \<noteq> 16 then None else Some (IP n)) of
        None \<Rightarrow> None
      | Some ip \<Rightarrow>
          (let m = Mask n
           in if length m = 4 then (if length ip \<noteq> 4 then None else Some (ip, m))
              else if length m = 16 then (if length ip = 4 then Some (ip, drop 12 m) else Some (ip, m))
              else None))"

definition Contains :: "IPNet \<Rightarrow> IP \<Rightarrow> bool" where
  "Contains n ip =
     (let (nn, m) = (case networkNumberAndMask n of None \<Rightarrow> ([], []) | Some p \<Rightarrow> p);
          ip = (case To4 ip of Some x \<Rightarrow> x | None \<Rightarrow> ip);
          l = length ip
      in if l \<noteq> length nn then False
         else list_all (\<lambda>i. (nn ! i) AND (m ! i) = (ip ! i) AND (m ! i)) [0..<l])"

subsection \<open>Errors\<close>

text \<open>
  \<^verbatim>\<open>fmt.Errorf(format, args...)\<close> is \<open>Errorf format args\<close>: the message is not rendered,
  the format and the operands are kept (a string or byte slice, a number, a
  \<^verbatim>\<open>net.IP\<close>, a \<^verbatim>\<open>net.IPNet\<close>, an error wrapped with \<^verbatim>\<open>%w\<close>). \<open>Opaque\<close> is an error that comes from outside this
  file (a failed system call, a JSON syntax error). \<open>Panic\<close> is a Go runtime panic.
\<close>

datatype error = Errorf string "fmtarg list" | Opaque string | Panic string
  and fmtarg = Str string | Num int | Addr IP | Subnet IPNet | Wrapped error

text \<open>
  What the parser asks of package \<open>net\<close>: \<^verbatim>\<open>net.ParseCIDR\<close> (\<open>None\<close> when it returns an
  error), \<^verbatim>\<open>net.ParseIP\<close> (\<open>None\<close> for \<^verbatim>\<open>nil\<close>) and whether \<^verbatim>\<open>net.InterfaceByName\<close>
  finds an interface of that name on the host.
\<close>

record netlib =
  ParseCIDR :: "string \<Rightarrow> (IP \<times> IPNet) option"
  ParseIP :: "string \<Rightarrow> IP option"
  InterfaceByName :: "string \<Rightarrow> bool"

subsection \<open>Data of the file\<close>

record slirpFeatures =
  HasDisableHostLoopback :: bool
  HasMTU :: bool
  HasEnableSandbox :: bool
  HasEnableSeccomp :: bool
  HasCIDR :: bool
  HasOutboundAddr :: bool
  HasIPv6 :: bool

record slirp4netnsNetworkOptions =
  cidr :: string
  disableHostLoopback :: bool
  enableIPv6 :: bool
  isSlirpHostForward :: bool
  noPivotRoot :: bool
  mtu :: int
  outboundAddr :: string
  outboundAddr6 :: string

text \<open>The fields of \<^verbatim>\<open>r.config.Engine\<close> that the file reads.\<close>

record Runtime =
  NetworkCmdOptions :: "string list"
  NoPivotRoot :: bool
  TmpDir :: string

subsection \<open>The option parser\<close>

text \<open>The body of the loop of \<^verbatim>\<open>parseSlirp4netnsNetworkOptions\<close>, for one entry \<open>opt\<close> (the source's \<^verbatim>\<open>o\<close>).\<close>

definition parseOption ::
  "netlib \<Rightarrow> slirp4netnsNetworkOptions \<Rightarrow> string \<Rightarrow> error + slirp4netnsNetworkOptions" where
  "parseOption net slirp4netnsOpts opt =
     (case SplitN2 opt CHR ''='' of
        [option, val] \<Rightarrow>
          if option = ''cidr'' then
            (case ParseCIDR net val of
               None \<Rightarrow> Inl (Errorf ''invalid cidr %q'' [Str val])
             | Some (ipv4, _) \<Rightarrow>
                 if To4 ipv4 = None then Inl (Errorf ''invalid cidr %q'' [Str val])
                 else Inr (slirp4netnsOpts\<lparr>cidr := val\<rparr>))
          else if option = ''port_handler'' then
            (if val = ''slirp4netns'' then Inr (slirp4netnsOpts\<lparr>isSlirpHostForward := True\<rparr>)
             else if val = ''rootlesskit'' then Inr (slirp4netnsOpts\<lparr>isSlirpHostForward := False\<rparr>)
             else Inl (Errorf ''unknown port_handler for slirp4netns: %q'' [Str val]))
          else if option = ''allow_host_loopback'' then
            (if val = ''true'' then Inr (slirp4netnsOpts\<lparr>disableHostLoopback := False\<rparr>)
             else if val = ''false'' then Inr (slirp4netnsOpts\<lparr>disableHostLoopback := True\<rparr>)
             else Inl (Errorf ''invalid value of allow_host_loopback for slirp4netns: %q'' [Str val]))
          else if option = ''enable_ipv6'' then
            (if val = ''true'' then Inr (slirp4netnsOpts\<lparr>enableIPv6 := True\<rparr>)
             else if val = ''false'' then Inr (slirp4netnsOpts\<lparr>enableIPv6 := False\<rparr>)
             else Inl (Errorf ''invalid value of enable_ipv6 for slirp4netns: %q'' [Str val]))
          else if option = ''outbound_addr'' then
            (let ipv4 = ParseIP net val
             in if (case ipv4 of None \<Rightarrow> True | Some ip \<Rightarrow> To4 ip = None)
                   \<and> \<not> InterfaceByName net val
                then Inl (Errorf ''invalid outbound_addr %q'' [Str val])
                else Inr (slirp4netnsOpts\<lparr>outboundAddr := val\<rparr>))
          else if option = ''outbound_addr6'' then
            (let ipv6 = ParseIP net val
             in if (case ipv6 of None \<Rightarrow> True | Some ip \<Rightarrow> To4 ip \<noteq> None)
                   \<and> \<not> InterfaceByName net val
                then Inl (Errorf ''invalid outbound_addr6: %q'' [Str val])
                else Inr (slirp4netnsOpts\<lparr>outboundAddr6 := val\<rparr>))
          else if option = ''mtu'' then
            (case Atoi val of
               (m, err) \<Rightarrow>
                 if m < 68 \<or> err then Inl (Errorf ''invalid mtu %q'' [Str val])
                 else Inr (slirp4netnsOpts\<lparr>mtu := m\<rparr>))
          else Inl (Errorf ''unknown option for slirp4netns: %q'' [Str opt])
      | _ \<Rightarrow> Inl (Errorf ''unknown option for slirp4netns: %q'' [Str opt]))"

text \<open>The loop: the entries in order, the first error ends it.\<close>

fun parseOptions ::
  "netlib \<Rightarrow> slirp4netnsNetworkOptions \<Rightarrow> string list \<Rightarrow> error + slirp4netnsNetworkOptions" where
  "parseOptions net opts [] = Inr opts"
| "parseOptions net opts (opt # rest) =
     (case parseOption net opts opt of
        Inl e \<Rightarrow> Inl e
      | Inr opts' \<Rightarrow> parseOptions net opts' rest)"

text \<open>
  \<^verbatim>\<open>parseSlirp4netnsNetworkOptions\<close>. The constant \<^verbatim>\<open>slirp4netnsMTU\<close> is declared in
  another file of the package and is a parameter here.
\<close>

definition parseSlirp4netnsNetworkOptions ::
  "netlib \<Rightarrow> int \<Rightarrow> Runtime \<Rightarrow> string list \<Rightarrow> error + slirp4netnsNetworkOptions" where
  "parseSlirp4netnsNetworkOptions net slirp4netnsMTU r extraOptions =
     (let slirpOptions = NetworkCmdOptions r @ extraOptions;
          slirp4netnsOpts = \<lparr>cidr = [], disableHostLoopback = True, enableIPv6 = True,
            isSlirpHostForward = False, noPivotRoot = NoPivotRoot r, mtu = slirp4netnsMTU,
            outboundAddr = [], outboundAddr6 = []\<rparr>
      in parseOptions net slirp4netnsOpts slirpOptions)"

subsection \<open>The argument builder\<close>

definition createBasicSlirp4netnsCmdArgs ::
  "slirp4netnsNetworkOptions \<Rightarrow> slirpFeatures \<Rightarrow> error + string list" where
  "createBasicSlirp4netnsCmdArgs options features =
     (let cmdArgs = [];
          cmdArgs = (if disableHostLoopback options \<and> HasDisableHostLoopback features
                     then cmdArgs @ [''--disable-host-loopback''] else cmdArgs);
          cmdArgs = (if mtu options > - 1 \<and> HasMTU features
                     then cmdArgs @ [''--mtu='' @ Sprintf_d (mtu options)] else cmdArgs);
          cmdArgs = (if \<not> noPivotRoot options \<and> HasEnableSandbox features
                     then cmdArgs @ [''--enable-sandbox''] else cmdArgs);
          cmdArgs = (if HasEnableSeccomp features
                     then cmdArgs @ [''--enable-seccomp''] else cmdArgs)
      in if cidr options \<noteq> [] \<and> \<not> HasCIDR features
         then Inl (Errorf ''cidr not supported'' [])
         else
     (let cmdArgs = (if cidr options \<noteq> []
                     then cmdArgs @ [''--cidr='' @ cidr options] else cmdArgs)
      in if enableIPv6 options \<and> \<not> HasIPv6 features
         then Inl (Errorf ''enable_ipv6 not supported'' [])
         else
     (let cmdArgs = (if enableIPv6 options
                     then cmdArgs @ [''--enable-ipv6''] else cmdArgs)
      in if outboundAddr options \<noteq> [] \<and> \<not> HasOutboundAddr features
         then Inl (Errorf ''outbound_addr not supported'' [])
         else
     (let cmdArgs = (if outboundAddr options \<noteq> []
                     then cmdArgs @ [''--outbound-addr='' @ outboundAddr options] else cmdArgs)
      in if outboundAddr6 options \<noteq> [] \<and> (\<not> HasOutboundAddr features \<or> \<not> HasIPv6 features)
         then Inl (Errorf ''outbound_addr6 not supported'' [])
         else if outboundAddr6 options \<noteq> [] \<and> \<not> enableIPv6 options
         then Inl (Errorf ''enable_ipv6=true is required for outbound_addr6'' [])
         else
     (let cmdArgs = (if outboundAddr6 options \<noteq> []
                     then cmdArgs @ [''--outbound-addr6='' @ outboundAddr6 options] else cmdArgs)
      in Inr cmdArgs)))))"

subsection \<open>IP arithmetic\<close>

text \<open>
  \<^verbatim>\<open>addToIP\<close>. \<^verbatim>\<open>subnet.IP.To4()\<close> may be \<^verbatim>\<open>nil\<close>; the first index the source
  evaluates is \<^verbatim>\<open>ipFixed[3]\<close>, which panics on a \<^verbatim>\<open>nil\<close> slice.
\<close>

definition addToIP :: "IPNet \<Rightarrow> 32 word \<Rightarrow> error + IP" where
  "addToIP subnet offset =
     (case To4 (IP subnet) of
        None \<Rightarrow> Inl (Panic ''runtime error: index out of range [3] with length 0'')
      | Some ipFixed \<Rightarrow>
          (let ipInteger = ((ucast (ipFixed ! 3) OR push_bit 8 (ucast (ipFixed ! 2)))
                             OR push_bit 16 (ucast (ipFixed ! 1)))
                             OR push_bit 24 (ucast (ipFixed ! 0));
               ipNewRaw = ipInteger + offset
           in if ipNewRaw < ipInteger
              then Inl (Errorf ''integer overflow while calculating ip address offset, %s + %d''
                          [Addr ipFixed, Num (uint offset)])
              else
          (let ipNew = IPv4 (ucast (drop_bit 24 ipNewRaw)) (ucast (drop_bit 16 ipNewRaw AND 0xFF))
                            (ucast (drop_bit 8 ipNewRaw) AND 0xFF) (ucast (ipNewRaw AND 0xFF))
           in if \<not> Contains subnet ipNew
              then Inl (Errorf ''calculated ip address %s is not within given subnet %s''
                          [Addr ipNew, Subnet subnet])
              else Inr ipNew)))"

text \<open>
  The three getters. \<^verbatim>\<open>defaultSlirp4netnsSubnet\<close> is declared in another file of the
  package and is a parameter; the error of \<^verbatim>\<open>net.ParseCIDR\<close> on it is dropped by the
  source, which leaves a \<^verbatim>\<open>nil\<close> subnet. A panic is not an error value: it passes
  through unwrapped.
\<close>

definition slirpSubnetOr :: "netlib \<Rightarrow> string \<Rightarrow> IPNet option \<Rightarrow> IPNet option" where
  "slirpSubnetOr net defaultSlirp4netnsSubnet subnet =
     (let slirpSubnet = (case ParseCIDR net defaultSlirp4netnsSubnet of
                           None \<Rightarrow> None | Some (_, n) \<Rightarrow> Some n)
      in if subnet \<noteq> None then subnet else slirpSubnet)"

definition addToSubnet :: "string \<Rightarrow> IPNet option \<Rightarrow> 32 word \<Rightarrow> error + IP" where
  "addToSubnet what slirpSubnet offset =
     (case slirpSubnet of
        None \<Rightarrow> Inl (Panic ''runtime error: invalid memory address or nil pointer dereference'')
      | Some s \<Rightarrow>
          (case addToIP s offset of
             Inl (Panic p) \<Rightarrow> Inl (Panic p)
           | Inl err \<Rightarrow> Inl (Errorf (''calculating expected '' @ what @ '' for slirp4netns: %w'')
                               [Wrapped err])
           | Inr ip \<Rightarrow> Inr ip))"

definition GetSlirp4netnsIP :: "netlib \<Rightarrow> string \<Rightarrow> IPNet option \<Rightarrow> error + IP" where
  "GetSlirp4netnsIP net defaultSlirp4netnsSubnet subnet =
     addToSubnet ''ip'' (slirpSubnetOr net defaultSlirp4netnsSubnet subnet) 100"

definition GetSlirp4netnsGateway :: "netlib \<Rightarrow> string \<Rightarrow> IPNet option \<Rightarrow> error + IP" where
  "GetSlirp4netnsGateway net defaultSlirp4netnsSubnet subnet =
     addToSubnet ''gateway ip'' (slirpSubnetOr net defaultSlirp4netnsSubnet subnet) 2"

definition GetSlirp4netnsDNS :: "netlib \<Rightarrow> string \<Rightarrow> IPNet option \<Rightarrow> error + IP" where
  "GetSlirp4netnsDNS net defaultSlirp4netnsSubnet subnet =
     addToSubnet ''dns ip'' (slirpSubnetOr net defaultSlirp4netnsSubnet subnet) 3"

subsection \<open>The DAD sysctl around the start of the helper\<close>










subsection \<open>The readiness barrier\<close>







text \<open>
  The log file behind \<^verbatim>\<open>io.ReadSeeker\<close>: its bytes, the current offset, and the errors
  that \<^verbatim>\<open>Seek\<close> and \<^verbatim>\<open>io.ReadAll\<close> would return. A failed \<^verbatim>\<open>Seek\<close> is only logged by
  the source and leaves the offset where it is.
\<close>

record LogFile =
  content :: string
  offset :: nat
  SeekErr :: "error option"
  ReadAllErr :: "error option"




text \<open>The fields of \<^verbatim>\<open>exec.Cmd\<close> that the file reads; \<open>Pid\<close> is \<^verbatim>\<open>cmd.Process.Pid\<close>.\<close>

record Cmd =
  Path :: string
  Args :: "string list"
  Pid :: int


subsection \<open>Port forwarding through the control socket\<close>

text \<open>
  A port mapping as \<^verbatim>\<open>ctr.convertPortMappings()\<close> returns it: \<^verbatim>\<open>types.PortMapping\<close> with
  its \<^verbatim>\<open>uint16\<close> ports and range and the protocols in one comma-separated string.
\<close>

record PortMapping =
  HostIP :: string
  ContainerPort :: "16 word"
  HostPort :: "16 word"
  Range :: "16 word"
  Protocol :: string

record slirp4netnsCmdArg =
  Proto :: string
  HostAddr :: string
  HostPort :: "16 word"
  GuestAddr :: string
  GuestPort :: "16 word"

record slirp4netnsCmd =
  Execute :: string
  Args :: slirp4netnsCmdArg

text \<open>
  The far end of the control socket. One call of \<^verbatim>\<open>openSlirp4netnsPort\<close> is one
  connection; \<open>exchange sock n c\<close> says how far the \<open>n\<close>-th connection gets when the
  command is \<open>c\<close>: \<^verbatim>\<open>net.Dial\<close>, \<^verbatim>\<open>conn.Write\<close>, \<^verbatim>\<open>CloseWrite\<close> or \<^verbatim>\<open>conn.Read\<close> fails, or
  the read returns bytes (at most the 2048 of the buffer). \<open>MarshalErr\<close> and \<open>Unmarshal\<close>
  are \<^verbatim>\<open>json.Marshal\<close> on the command and \<^verbatim>\<open>json.Unmarshal\<close> into a map, whose values are
  kept as rendered by \<^verbatim>\<open>%v\<close>.
\<close>

datatype exchange =
  DialFails error | WriteFails error | CloseWriteFails error | ReadFails error | Reply string

record api =
  MarshalErr :: "slirp4netnsCmd \<Rightarrow> error option"
  exchange :: "nat \<Rightarrow> slirp4netnsCmd \<Rightarrow> exchange"
  Unmarshal :: "string \<Rightarrow> error + (string \<rightharpoonup> string)"

text \<open>The state: how many connections were opened and the commands written so far.\<close>

record api_state =
  calls :: nat
  written :: "slirp4netnsCmd list"

definition afterMarshal ::
  "api \<Rightarrow> slirp4netnsCmd \<Rightarrow> api_state \<Rightarrow> (error + unit) \<times> api_state \<Rightarrow> (error + unit) \<times> api_state" where
  "afterMarshal sock apiCmd st rest =
     (case MarshalErr sock apiCmd of
        Some err \<Rightarrow> (Inl (Errorf ''cannot marshal JSON for slirp4netns: %w'' [Wrapped err]), st)
      | None \<Rightarrow> rest)"

text \<open>
  \<^verbatim>\<open>openSlirp4netnsPort\<close>. The error of the deferred \<^verbatim>\<open>conn.Close\<close> is only logged.
  \<^verbatim>\<open>GuestAddr\<close> is left at its zero value.
\<close>

definition openSlirp4netnsPort ::
  "api \<Rightarrow> string \<Rightarrow> string \<Rightarrow> string \<Rightarrow> 16 word \<Rightarrow> 16 word \<Rightarrow> api_state
     \<Rightarrow> (error + unit) \<times> api_state" where
  "openSlirp4netnsPort sock apiSocket proto hostip hostport guestport st0 =
     (let apiCmd = \<lparr>Execute = ''add_hostfwd'',
                     Args = \<lparr>Proto = proto, HostAddr = hostip, HostPort = hostport,
                              GuestAddr = [], GuestPort = guestport\<rparr>\<rparr>;
          st = st0\<lparr>calls := Suc (calls st0)\<rparr>;
          sent = st\<lparr>written := written st @ [apiCmd]\<rparr>
      in case exchange sock (calls st0) apiCmd of
           DialFails err \<Rightarrow>
             (Inl (Errorf ''cannot open connection to %s: %w'' [Str apiSocket, Wrapped err]), st)
         | WriteFails err \<Rightarrow>
             afterMarshal sock apiCmd st
               (Inl (Errorf ''cannot write to control socket %s: %w'' [Str apiSocket, Wrapped err]), st)
         | CloseWriteFails err \<Rightarrow>
             afterMarshal sock apiCmd st
               (Inl (Errorf ''cannot shutdown the socket %s: %w'' [Str apiSocket, Wrapped err]), sent)
         | ReadFails err \<Rightarrow>
             afterMarshal sock apiCmd st
               (Inl (Errorf ''cannot read from control socket %s: %w'' [Str apiSocket, Wrapped err]), sent)
         | Reply buf \<Rightarrow>
             afterMarshal sock apiCmd st
               (case Unmarshal sock buf of
                  Inl err \<Rightarrow>
                    (Inl (Errorf ''parsing error status from slirp4netns: %w'' [Wrapped err]), sent)
                | Inr y \<Rightarrow>
                    (case y ''error'' of
                       Some e \<Rightarrow>
                         (Inl (Errorf ''from slirp4netns while setting up port redirection: %v'' [Str e]),
                          sent)
                     | None \<Rightarrow> (Inr (), sent))))"

text \<open>A \<^verbatim>\<open>for ... range\<close> loop whose body may return an error, which ends the loop.\<close>

fun forEach :: "('a \<Rightarrow> 's \<Rightarrow> (error + unit) \<times> 's) \<Rightarrow> 'a list \<Rightarrow> 's \<Rightarrow> (error + unit) \<times> 's" where
  "forEach body [] st = (Inr (), st)"
| "forEach body (x # xs) st =
     (case body x st of
        (Inl err, st') \<Rightarrow> (Inl err, st')
      | (Inr _, st') \<Rightarrow> forEach body xs st')"

text \<open>
  \<^verbatim>\<open>setupRootlessPortMappingViaSlirp\<close>. \<open>waitForFile\<close> is the error of \<^verbatim>\<open>WaitForFile\<close>,
  which is defined in another file of the package, fed by the goroutine that watches the
  helper; \<open>ports\<close> is \<^verbatim>\<open>ctr.convertPortMappings()\<close>. The counter \<^verbatim>\<open>i\<close> is a \<^verbatim>\<open>uint16\<close>
  below \<^verbatim>\<open>port.Range\<close>, and the port sums wrap around in 16 bits.
\<close>

definition setupRootlessPortMappingViaSlirp ::
  "api \<Rightarrow> error option \<Rightarrow> PortMapping list \<Rightarrow> string \<Rightarrow> api_state \<Rightarrow> (error + unit) \<times> api_state" where
  "setupRootlessPortMappingViaSlirp sock waitForFile ports apiSocket st =
     (case waitForFile of
        Some err \<Rightarrow>
          (Inl (Errorf ''waiting for slirp4nets to create the api socket file %s: %w''
                  [Str apiSocket, Wrapped err]), st)
      | None \<Rightarrow>
          forEach (\<lambda>port.
            let protocols = Split (Protocol port) CHR '',''
            in forEach (\<lambda>protocol.
                 let hostIP = (if HostIP port = [] then ''0.0.0.0'' else HostIP port)
                 in forEach (\<lambda>i. openSlirp4netnsPort sock apiSocket protocol hostIP
                                     (PortMapping.HostPort port + i) (ContainerPort port + i))
                      (map of_nat [0..<unat (Range port)]))
                 protocols)
            ports st)"

subsection \<open>The child IP and the reload protocol\<close>

text \<open>
  \<^verbatim>\<open>IP.String\<close>: \<^verbatim>\<open><nil>\<close> for an empty slice, dotted decimal when \<^verbatim>\<open>To4\<close> gives four
  bytes, and the form of package \<open>net\<close> for every other slice, which is the parameter
  \<open>String6\<close>.
\<close>

fun dotted :: "byte list \<Rightarrow> string" where
  "dotted [] = []"
| "dotted [b] = decimal (unat b)"
| "dotted (b # bs) = decimal (unat b) @ ''.'' @ dotted bs"

definition IPString :: "(IP \<Rightarrow> string) \<Rightarrow> IP \<Rightarrow> string" where
  "IPString String6 ip =
     (if length ip = 0 then ''<nil>''
      else (case To4 ip of Some p4 \<Rightarrow> dotted p4 | None \<Rightarrow> String6 ip))"

text \<open>
  What the file reads of a container: \<^verbatim>\<open>c.config.ID\<close>, \<^verbatim>\<open>c.config.PortMappings\<close>,
  \<^verbatim>\<open>c.config.NetMode.IsSlirp4netns()\<close>, \<^verbatim>\<open>c.slirp4netnsSubnet\<close> (\<open>None\<close> for \<^verbatim>\<open>nil\<close>),
  \<^verbatim>\<open>c.state.NetworkStatus\<close> and the runtime. The network status is a map of maps of
  lists; it is given as the \<^verbatim>\<open>IPNet.IP\<close> of each subnet of each interface of each network
  in the order in which \<^verbatim>\<open>range\<close> visits them, \<open>None\<close> for a \<^verbatim>\<open>nil\<close> slice and
  \<open>Some []\<close> for an empty one that is not \<^verbatim>\<open>nil\<close>.
\<close>

record Container =
  ID :: string
  PortMappings :: "PortMapping list"
  IsSlirp4netns :: bool
  slirp4netnsSubnet :: "IPNet option"
  NetworkStatus :: "IP option list list list"
  runtime :: Runtime

text \<open>
  The three nested loops of \<^verbatim>\<open>getRootlessPortChildIP\<close> over the addresses in visiting
  order: the first one that \<^verbatim>\<open>To4\<close> converts returns, otherwise the address is kept in
  \<^verbatim>\<open>ipv6\<close>, which starts as \<^verbatim>\<open>nil\<close>; after the loops \<^verbatim>\<open>ipv6 != nil\<close> decides.
\<close>

fun childIPLoop :: "(IP \<Rightarrow> string) \<Rightarrow> IP option \<Rightarrow> IP option list \<Rightarrow> string" where
  "childIPLoop String6 ipv6 [] =
     (case ipv6 of Some ip \<Rightarrow> IPString String6 ip | None \<Rightarrow> [])"
| "childIPLoop String6 ipv6 (netAddress # rest) =
     (case (case netAddress of None \<Rightarrow> None | Some ip \<Rightarrow> To4 ip) of
        Some ipv4 \<Rightarrow> IPString String6 ipv4
      | None \<Rightarrow> childIPLoop String6 netAddress rest)"

definition getRootlessPortChildIP ::
  "netlib \<Rightarrow> (IP \<Rightarrow> string) \<Rightarrow> string \<Rightarrow> Container \<Rightarrow> IP option list list list
     \<Rightarrow> error + string" where
  "getRootlessPortChildIP net String6 defaultSlirp4netnsSubnet c netStatus =
     (if IsSlirp4netns c then
        (case GetSlirp4netnsIP net defaultSlirp4netnsSubnet (slirp4netnsSubnet c) of
           Inl (Panic p) \<Rightarrow> Inl (Panic p)
         | Inl err \<Rightarrow> Inr []
         | Inr slirp4netnsIP \<Rightarrow> Inr (IPString String6 slirp4netnsIP))
      else Inr (childIPLoop String6 None (concat (map concat netStatus))))"

text \<open>
  The reload socket: \<^verbatim>\<open>filepath.Join\<close>, the error of \<^verbatim>\<open>openUnixSocket\<close> (defined in
  another file of the package) on a path, the error of \<^verbatim>\<open>enc.Encode\<close> on a string, and
  the outcome of \<^verbatim>\<open>io.ReadAll\<close> on the connection. What the function does on the
  connection is returned as a list of actions.
\<close>

record rlk =
  Join :: "string list \<Rightarrow> string"
  openUnixSocket :: "string \<Rightarrow> error option"
  Encode :: "string \<Rightarrow> error option"
  ReadAll :: "error + string"

datatype action = Connect string | EncodeJSON string | ReadResponse | CloseConn

definition reloadRootlessRLKPortMapping ::
  "netlib \<Rightarrow> (IP \<Rightarrow> string) \<Rightarrow> string \<Rightarrow> rlk \<Rightarrow> Container \<Rightarrow> (error + unit) \<times> action list" where
  "reloadRootlessRLKPortMapping net String6 defaultSlirp4netnsSubnet sock c =
     (if length (PortMappings c) = 0 then (Inr (), [])
      else
        (case getRootlessPortChildIP net String6 defaultSlirp4netnsSubnet c (NetworkStatus c) of
           Inl p \<Rightarrow> (Inl p, [])
         | Inr childIP \<Rightarrow>
             (let path = Join sock [TmpDir (runtime c), ''rp'', ID c]
              in case openUnixSocket sock path of
                   Some err \<Rightarrow>
                     (Inl (Errorf ''could not reload rootless port mappings, port forwarding may no longer work correctly: %w''
                             [Wrapped err]),
                      [Connect path])
                 | None \<Rightarrow>
                     (case Encode sock childIP of
                        Some err \<Rightarrow>
                          (Inl (Errorf ''port reloading failed: %w'' [Wrapped err]),
                           [Connect path, EncodeJSON childIP, CloseConn])
                      | None \<Rightarrow>
                          (case ReadAll sock of
                             Inl err \<Rightarrow>
                               (Inl (Errorf ''port reloading failed: %w'' [Wrapped err]),
                                [Connect path, EncodeJSON childIP, ReadResponse, CloseConn])
                           | Inr data \<Rightarrow>
                               if data \<noteq> ''OK''
                               then (Inl (Errorf ''port reloading failed: %s'' [Str data]),
                                     [Connect path, EncodeJSON childIP, ReadResponse, CloseConn])
                               else (Inr (),
                                     [Connect path, EncodeJSON childIP, ReadResponse, CloseConn]))))))"

subsection \<open>What the claims speak of\<close>

text \<open>
  The key of an entry is what stands before its first \<open>=\<close>. \<open>option_has_value k v opts\<close>
  says that the field of \<open>opts\<close> that the parser assigns for key \<open>k\<close> holds what the
  parser stores for the value \<open>v\<close>.
\<close>

definition option_key :: "string \<Rightarrow> string" where
  "option_key opt = (case SplitN2 opt CHR ''='' of [] \<Rightarrow> [] | k # _ \<Rightarrow> k)"

definition option_has_value :: "string \<Rightarrow> string \<Rightarrow> slirp4netnsNetworkOptions \<Rightarrow> bool" where
  "option_has_value k v opts =
     (if k = ''cidr'' then cidr opts = v
      else if k = ''port_handler'' then isSlirpHostForward opts = (v = ''slirp4netns'')
      else if k = ''allow_host_loopback'' then disableHostLoopback opts = (v = ''false'')
      else if k = ''enable_ipv6'' then enableIPv6 opts = (v = ''true'')
      else if k = ''outbound_addr'' then outboundAddr opts = v
      else if k = ''outbound_addr6'' then outboundAddr6 opts = v
      else if k = ''mtu'' then mtu opts = fst (Atoi v)
      else False)"

text \<open>The big-endian integer that a byte sequence denotes.\<close>

definition be32 :: "byte list \<Rightarrow> nat" where
  "be32 bs = foldl (\<lambda>n x. n * 256 + unat x) 0 bs"


text \<open>
  The commands of a list of port mappings: the mappings in their order, for each its
  protocols in their order, for each the offsets from 0 below the range.
\<close>

definition add_hostfwd :: "string \<Rightarrow> string \<Rightarrow> 16 word \<Rightarrow> 16 word \<Rightarrow> slirp4netnsCmd" where
  "add_hostfwd proto hostip hostport guestport =
     \<lparr>Execute = ''add_hostfwd'',
      Args = \<lparr>Proto = proto, HostAddr = hostip, HostPort = hostport,
               GuestAddr = [], GuestPort = guestport\<rparr>\<rparr>"

definition commands_of :: "PortMapping \<Rightarrow> string \<Rightarrow> slirp4netnsCmd list" where
  "commands_of port protocol =
     map (\<lambda>i. add_hostfwd protocol (if HostIP port = [] then ''0.0.0.0'' else HostIP port)
                (PortMapping.HostPort port + of_nat i) (ContainerPort port + of_nat i))
       [0..<unat (Range port)]"

definition expansion :: "PortMapping list \<Rightarrow> slirp4netnsCmd list" where
  "expansion ports =
     concat (map (\<lambda>port. concat (map (commands_of port) (Split (Protocol port) CHR '',''))) ports)"

text \<open>
  The \<open>n\<close>-th connection accepts the command \<open>c\<close>: the command can be marshalled, the
  exchange gets as far as a reply, and the reply parses to a map without the key
  \<open>error\<close>. \<open>open_command\<close> is the call of \<^verbatim>\<open>openSlirp4netnsPort\<close> that sends \<open>c\<close>.
\<close>

definition accepted :: "api \<Rightarrow> nat \<Rightarrow> slirp4netnsCmd \<Rightarrow> bool" where
  "accepted sock n c =
     (MarshalErr sock c = None
      \<and> (case exchange sock n c of
            Reply buf \<Rightarrow> (case Unmarshal sock buf of Inr y \<Rightarrow> y ''error'' = None | Inl _ \<Rightarrow> False)
          | _ \<Rightarrow> False))"

definition open_command ::
  "api \<Rightarrow> string \<Rightarrow> slirp4netnsCmd \<Rightarrow> api_state \<Rightarrow> (error + unit) \<times> api_state" where
  "open_command sock apiSocket c =
     openSlirp4netnsPort sock apiSocket (Proto (Args c)) (HostAddr (Args c)) (HostPort (Args c))
       (GuestPort (Args c))"

subsection \<open>Concrete inputs of the examples\<close>

text \<open>
  The answers of package \<open>net\<close> on the strings that the examples use, on a host whose only
  interface is \<open>lo\<close>: \<^verbatim>\<open>ParseCIDR("10.0.2.0/24")\<close> succeeds, \<^verbatim>\<open>ParseIP("::1")\<close> is the
  IPv6 loopback address in 16 bytes. The examples ask for no other string.
\<close>

definition example_net :: netlib where
  "example_net =
     \<lparr>ParseCIDR = (\<lambda>s. if s = ''10.0.2.0/24''
                        then Some (IPv4 10 0 2 0, \<lparr>IP = [10, 0, 2, 0], Mask = [255, 255, 255, 0]\<rparr>)
                        else None),
      ParseIP = (\<lambda>s. if s = ''::1'' then Some [0, 0, 0, 0, 0, 0, 0, 0, 0, 0, 0, 0, 0, 0, 0, 1] else None),
      InterfaceByName = (\<lambda>s. s = ''lo'')\<rparr>"

text \<open>A runtime whose global configuration sets \<open>mtu=1500\<close>.\<close>

definition example_runtime :: Runtime where
  "example_runtime = \<lparr>NetworkCmdOptions = [''mtu=1500''], NoPivotRoot = False, TmpDir = ''/tmp''\<rparr>"

subsection \<open>Flags and features\<close>

text \<open>
  A flag is in the argument vector when an argument is the flag itself or starts with the
  flag followed by \<open>=\<close>.
\<close>

definition emits :: "string \<Rightarrow> string list \<Rightarrow> bool" where
  "emits flag cmdArgs = list_ex (\<lambda>a. a = flag \<or> prefix (flag @ ''='') a) cmdArgs"

text \<open>The errors whose message is \<open><option> not supported\<close>.\<close>

definition not_supported :: "error \<Rightarrow> bool" where
  "not_supported e = (case e of Errorf f [] \<Rightarrow> suffix '' not supported'' f | _ \<Rightarrow> False)"

text \<open>
  An option is set whose flag the builder refuses to drop, and the helper lacks the feature.
\<close>

definition needs_absent_feature :: "slirp4netnsNetworkOptions \<Rightarrow> slirpFeatures \<Rightarrow> bool" where
  "needs_absent_feature options features =
     ((cidr options \<noteq> [] \<and> \<not> HasCIDR features)
      \<or> (enableIPv6 options \<and> \<not> HasIPv6 features)
      \<or> (outboundAddr options \<noteq> [] \<and> \<not> HasOutboundAddr features)
      \<or> (outboundAddr6 options \<noteq> [] \<and> \<not> (HasOutboundAddr features \<and> HasIPv6 features)))"

text \<open>A helper with every feature, one with none, and the options of the end-to-end example.\<close>

definition all_features :: slirpFeatures where
  "all_features = \<lparr>HasDisableHostLoopback = True, HasMTU = True, HasEnableSandbox = True,
     HasEnableSeccomp = True, HasCIDR = True, HasOutboundAddr = True, HasIPv6 = True\<rparr>"

definition no_features :: slirpFeatures where
  "no_features = \<lparr>HasDisableHostLoopback = False, HasMTU = False, HasEnableSandbox = False,
     HasEnableSeccomp = False, HasCIDR = False, HasOutboundAddr = False, HasIPv6 = False\<rparr>"

definition example_options :: slirp4netnsNetworkOptions where
  "example_options = \<lparr>cidr = [], disableHostLoopback = True, enableIPv6 = True,
     isSlirpHostForward = False, noPivotRoot = False, mtu = 1500,
     outboundAddr = [], outboundAddr6 = []\<rparr>"

text \<open>
  The subnets of the examples: 10.0.2.0/30, 10.0.2.0/24, 255.255.255.240/28 and the IPv6
  network fd00::/64, as \<^verbatim>\<open>net.IPNet\<close> values.
\<close>

definition subnet_10_0_2_0_30 :: IPNet where
  "subnet_10_0_2_0_30 = \<lparr>IP = [10, 0, 2, 0], Mask = [255, 255, 255, 252]\<rparr>"

definition subnet_10_0_2_0_24 :: IPNet where
  "subnet_10_0_2_0_24 = \<lparr>IP = [10, 0, 2, 0], Mask = [255, 255, 255, 0]\<rparr>"

definition subnet_255_255_255_240_28 :: IPNet where
  "subnet_255_255_255_240_28 = \<lparr>IP = [255, 255, 255, 240], Mask = [255, 255, 255, 240]\<rparr>"

definition subnet_fd00_64 :: IPNet where
  "subnet_fd00_64 = \<lparr>IP = [0xfd, 0, 0, 0, 0, 0, 0, 0, 0, 0, 0, 0, 0, 0, 0, 0],
     Mask = [255, 255, 255, 255, 255, 255, 255, 255, 0, 0, 0, 0, 0, 0, 0, 0]\<rparr>"










text \<open>The state after one more connection for each of the commands \<open>cs\<close>, all written.\<close>

definition issue :: "slirp4netnsCmd list \<Rightarrow> api_state \<Rightarrow> api_state" where
  "issue cs st = st\<lparr>calls := calls st + length cs, written := written st @ cs\<rparr>"

text \<open>
  The mapping of the example, and a control socket that answers every command with the
  empty JSON object.
\<close>

definition example_mapping :: PortMapping where
  "example_mapping = \<lparr>HostIP = ''0.0.0.0'', ContainerPort = 80, HostPort = 8080, Range = 2,
     Protocol = ''tcp,udp''\<rparr>"

definition example_sock :: api where
  "example_sock = \<lparr>MarshalErr = (\<lambda>c. None), exchange = (\<lambda>n c. Reply ''{}''),
     Unmarshal = (\<lambda>buf. if buf = ''{}'' then Inr Map.empty else Inl (Opaque ''unexpected end of JSON input''))\<rparr>"

text \<open>
  A control socket that answers the second connection with an error object, written
  \<open>{error}\<close> here, whose value \<^verbatim>\<open>%v\<close> renders as \<open>map[desc:bad request]\<close>, and every other
  connection with the empty JSON object.
\<close>

definition refusing_sock :: api where
  "refusing_sock = \<lparr>MarshalErr = (\<lambda>c. None),
     exchange = (\<lambda>n c. if n = 1 then Reply ''{error}'' else Reply ''{}''),
     Unmarshal = (\<lambda>buf. if buf = ''{}'' then Inr Map.empty
                        else if buf = ''{error}'' then Inr [''error'' \<mapsto> ''map[desc:bad request]'']
                        else Inl (Opaque ''unexpected end of JSON input''))\<rparr>"




text \<open>
  A reload socket at \<open>/tmp/rp/ctr1\<close> that answers with a given response, a container in
  slirp4netns mode with the example mapping and no subnet of its own, and a rendering of
  IPv6 addresses that the examples never reach.
\<close>

definition example_rlk :: "string \<Rightarrow> rlk" where
  "example_rlk response =
     \<lparr>Join = (\<lambda>elems. if elems = [''/tmp'', ''rp'', ''ctr1''] then ''/tmp/rp/ctr1'' else []),
      openUnixSocket = (\<lambda>path. if path = ''/tmp/rp/ctr1'' then None
                                else Some (Opaque ''no such file or directory'')),
      Encode = (\<lambda>s. None),
      ReadAll = Inr response\<rparr>"

definition example_container :: Container where
  "example_container =
     \<lparr>ID = ''ctr1'', PortMappings = [example_mapping], IsSlirp4netns = True,
      slirp4netnsSubnet = None, NetworkStatus = [], runtime = example_runtime\<rparr>"

definition no_String6 :: "IP \<Rightarrow> string" where
  "no_String6 ip = ''?''"

section \<open>Properties\<close>

subsection \<open>The option parser: the last entry of a key decides\<close>

lemma parseOptions_append:
  "parseOptions net opts (xs @ ys) =
     (case parseOptions net opts xs of Inl e \<Rightarrow> Inl e | Inr opts' \<Rightarrow> parseOptions net opts' ys)"
  by (induction xs arbitrary: opts) (auto split: sum.splits)

lemma parseOption_sets:
  assumes "parseOption net opts opt = Inr opts'" and "SplitN2 opt CHR ''='' = [k, v]"
  shows "option_has_value k v opts'"
  using assms
  by (auto simp: parseOption_def option_has_value_def Let_def
           split: if_splits option.splits prod.splits)

lemma parseOption_keeps:
  assumes "parseOption net opts opt = Inr opts'" and "option_key opt \<noteq> k"
    and "option_has_value k v opts"
  shows "option_has_value k v opts'"
  using assms
  by (auto simp: parseOption_def option_has_value_def option_key_def Let_def
           split: if_splits option.splits prod.splits list.splits)

lemma parseOptions_keeps:
  assumes "parseOptions net opts ys = Inr opts'" and "\<forall>y\<in>set ys. option_key y \<noteq> k"
    and "option_has_value k v opts"
  shows "option_has_value k v opts'"
  using assms
proof (induction ys arbitrary: opts)
  case Nil
  then show ?case by simp
next
  case (Cons y ys)
  from Cons.prems(1) obtain mid where m: "parseOption net opts y = Inr mid"
    and r: "parseOptions net mid ys = Inr opts'"
    by (auto split: sum.splits)
  from m Cons.prems(2,3) have "option_has_value k v mid"
    by (auto intro: parseOption_keeps)
  with r Cons.prems(2) show ?case by (auto intro: Cons.IH)
qed

text \<open>
  Claim C1, as amended. When the merged sequence (global options, then the options of the
  container) parses, and \<open>ent\<close> is the last entry of its key \<open>k\<close>, the parsed options
  hold the value of \<open>ent\<close> for that key: with the same key twice, the later entry wins.
\<close>

theorem later_entry_wins:
  assumes "parseSlirp4netnsNetworkOptions net slirp4netnsMTU r extraOptions = Inr opts"
    and "NetworkCmdOptions r @ extraOptions = xs @ [ent] @ ys"
    and "SplitN2 ent CHR ''='' = [k, v]"
    and "\<forall>y\<in>set ys. option_key y \<noteq> k"
  shows "option_has_value k v opts"
proof -
  let ?init = "\<lparr>cidr = [], disableHostLoopback = True, enableIPv6 = True,
            isSlirpHostForward = False, noPivotRoot = NoPivotRoot r, mtu = slirp4netnsMTU,
            outboundAddr = [], outboundAddr6 = []\<rparr>"
  from assms(1,2) have all: "parseOptions net ?init (xs @ [ent] @ ys) = Inr opts"
    by (simp add: parseSlirp4netnsNetworkOptions_def)
  then obtain a where a: "parseOptions net ?init xs = Inr a"
    and rest: "parseOptions net a ([ent] @ ys) = Inr opts"
    by (auto simp: parseOptions_append [of net ?init xs] split: sum.splits)
  from rest obtain b where b: "parseOption net a ent = Inr b"
    and tail: "parseOptions net b ys = Inr opts"
    by (auto split: sum.splits)
  from b assms(3) have "option_has_value k v b" by (rule parseOption_sets)
  with tail assms(4) show ?thesis by (auto intro: parseOptions_keeps)
qed
text \<open>
  The theorem at the sequence \<open>mtu=1500\<close> (global), \<open>mtu=9000\<close>, \<open>enable_ipv6=false\<close>.
\<close>

theorem later_entry_wins_witness:
  "parseSlirp4netnsNetworkOptions example_net 65520 example_runtime
     [''mtu=9000'', ''enable_ipv6=false'']
   = Inr \<lparr>cidr = [], disableHostLoopback = True, enableIPv6 = False,
          isSlirpHostForward = False, noPivotRoot = False, mtu = 9000,
          outboundAddr = [], outboundAddr6 = []\<rparr>
   \<and> option_has_value ''mtu'' ''9000''
        \<lparr>cidr = [], disableHostLoopback = True, enableIPv6 = False,
          isSlirpHostForward = False, noPivotRoot = False, mtu = 9000,
          outboundAddr = [], outboundAddr6 = []\<rparr>"
proof -
  let ?res = "\<lparr>cidr = [], disableHostLoopback = True, enableIPv6 = False,
          isSlirpHostForward = False, noPivotRoot = False, mtu = 9000,
          outboundAddr = [], outboundAddr6 = []\<rparr>"
  have h1: "parseSlirp4netnsNetworkOptions example_net 65520 example_runtime
     [''mtu=9000'', ''enable_ipv6=false''] = Inr ?res"
    by (simp add: parseSlirp4netnsNetworkOptions_def example_runtime_def parseOption_def
          SplitN2_def Atoi_def is_digit_def)
  have h2: "NetworkCmdOptions example_runtime @ [''mtu=9000'', ''enable_ipv6=false'']
      = [''mtu=1500''] @ [''mtu=9000''] @ [''enable_ipv6=false'']"
    by (simp add: example_runtime_def)
  have h3: "SplitN2 ''mtu=9000'' CHR ''='' = [''mtu'', ''9000'']"
    by (simp add: SplitN2_def)
  have h4: "\<forall>y\<in>set [''enable_ipv6=false'']. option_key y \<noteq> ''mtu''"
    by (simp add: option_key_def SplitN2_def)
  from later_entry_wins [OF h1 h2 h3 h4] h1 show ?thesis by simp
qed

text \<open>
  Claim C1 as it was stated (the earlier entry wins) fails: global \<open>mtu=1500\<close> followed by
  the container's \<open>mtu=9000\<close> parses to an MTU of 9000, not 1500.
\<close>

theorem earlier_entry_wins_counterexample:
  "parseSlirp4netnsNetworkOptions example_net 65520 example_runtime [''mtu=9000'']
   = Inr \<lparr>cidr = [], disableHostLoopback = True, enableIPv6 = True,
          isSlirpHostForward = False, noPivotRoot = False, mtu = 9000,
          outboundAddr = [], outboundAddr6 = []\<rparr>
   \<and> NetworkCmdOptions example_runtime @ [''mtu=9000''] = [''mtu=1500'', ''mtu=9000'']
   \<and> \<not> option_has_value ''mtu'' ''1500''
        \<lparr>cidr = [], disableHostLoopback = True, enableIPv6 = True,
          isSlirpHostForward = False, noPivotRoot = False, mtu = 9000,
          outboundAddr = [], outboundAddr6 = []\<rparr>"
  by (simp add: parseSlirp4netnsNetworkOptions_def example_runtime_def parseOption_def
          SplitN2_def Atoi_def is_digit_def option_has_value_def)

subsection \<open>The argument builder\<close>

lemma emits_append: "emits f (xs @ ys) = (emits f xs \<or> emits f ys)"
  by (simp add: emits_def)

lemma append_if: "(if c then xs @ [a] else xs) = xs @ (if c then [a] else [])"
  by simp

lemma builder_unfold:
  "createBasicSlirp4netnsCmdArgs options features =
     (if cidr options \<noteq> [] \<and> \<not> HasCIDR features
      then Inl (Errorf ''cidr not supported'' [])
      else if enableIPv6 options \<and> \<not> HasIPv6 features
      then Inl (Errorf ''enable_ipv6 not supported'' [])
      else if outboundAddr options \<noteq> [] \<and> \<not> HasOutboundAddr features
      then Inl (Errorf ''outbound_addr not supported'' [])
      else if outboundAddr6 options \<noteq> [] \<and> (\<not> HasOutboundAddr features \<or> \<not> HasIPv6 features)
      then Inl (Errorf ''outbound_addr6 not supported'' [])
      else if outboundAddr6 options \<noteq> [] \<and> \<not> enableIPv6 options
      then Inl (Errorf ''enable_ipv6=true is required for outbound_addr6'' [])
      else Inr (
      (if disableHostLoopback options \<and> HasDisableHostLoopback features
       then [''--disable-host-loopback''] else [])
    @ (if mtu options > - 1 \<and> HasMTU features then [''--mtu='' @ Sprintf_d (mtu options)] else [])
    @ (if \<not> noPivotRoot options \<and> HasEnableSandbox features then [''--enable-sandbox''] else [])
    @ (if HasEnableSeccomp features then [''--enable-seccomp''] else [])
    @ (if cidr options \<noteq> [] then [''--cidr='' @ cidr options] else [])
    @ (if enableIPv6 options then [''--enable-ipv6''] else [])
    @ (if outboundAddr options \<noteq> [] then [''--outbound-addr='' @ outboundAddr options] else [])
    @ (if outboundAddr6 options \<noteq> [] then [''--outbound-addr6='' @ outboundAddr6 options] else [])))"
  unfolding createBasicSlirp4netnsCmdArgs_def append_if
  unfolding Let_def
  by simp

lemma emits_opt: "emits f (if c then [a] else []) = (c \<and> (a = f \<or> prefix (f @ ''='') a))"
  by (simp add: emits_def)

lemma Inr_eq_if_Inl: "(Inr y = (if c then Inl e else x)) = (\<not> c \<and> Inr y = x)"
  by simp

lemma builder_flags:
  assumes "createBasicSlirp4netnsCmdArgs options features = Inr cmdArgs"
  shows "emits ''--disable-host-loopback'' cmdArgs \<longrightarrow> HasDisableHostLoopback features"
    and "emits ''--mtu'' cmdArgs \<longrightarrow> HasMTU features"
    and "emits ''--enable-sandbox'' cmdArgs \<longrightarrow> HasEnableSandbox features"
    and "emits ''--enable-seccomp'' cmdArgs \<longrightarrow> HasEnableSeccomp features"
    and "emits ''--cidr'' cmdArgs \<longrightarrow> HasCIDR features"
    and "emits ''--enable-ipv6'' cmdArgs \<longrightarrow> HasIPv6 features"
    and "emits ''--outbound-addr'' cmdArgs \<longrightarrow> HasOutboundAddr features"
    and "emits ''--outbound-addr6'' cmdArgs \<longrightarrow> HasOutboundAddr features \<and> HasIPv6 features"
  using assms [symmetric] unfolding builder_unfold
  by (simp_all add: Inr_eq_if_Inl emits_append emits_opt) blast+

lemma builder_not_supported:
  assumes "needs_absent_feature options features"
  shows "\<exists>e. createBasicSlirp4netnsCmdArgs options features = Inl e \<and> not_supported e"
  using assms unfolding builder_unfold needs_absent_feature_def
  by (auto simp: not_supported_def suffix_to_prefix)

lemma builder_success:
  assumes "\<not> needs_absent_feature options features"
    and "outboundAddr6 options \<noteq> [] \<longrightarrow> enableIPv6 options"
  shows "\<exists>cmdArgs. createBasicSlirp4netnsCmdArgs options features = Inr cmdArgs"
  using assms unfolding builder_unfold needs_absent_feature_def
  by auto

text \<open>
  Claim C2, as amended. A successful build contains no flag whose feature is absent. When
  \<open>cidr\<close>, \<open>outboundAddr\<close> or \<open>outboundAddr6\<close> is set, or \<open>enableIPv6\<close> is true, and the
  feature is absent, the build fails with a \<open>not supported\<close> error. Nothing else makes it
  fail but \<open>outboundAddr6\<close> without \<open>enableIPv6\<close>: an absent feature for
  \<open>--disable-host-loopback\<close>, \<open>--mtu\<close>, \<open>--enable-sandbox\<close> or \<open>--enable-seccomp\<close> only
  leaves the flag out.
\<close>

theorem builder_feature_gating:
  "(\<forall>cmdArgs. createBasicSlirp4netnsCmdArgs options features = Inr cmdArgs \<longrightarrow>
      (emits ''--disable-host-loopback'' cmdArgs \<longrightarrow> HasDisableHostLoopback features)
    \<and> (emits ''--mtu'' cmdArgs \<longrightarrow> HasMTU features)
    \<and> (emits ''--enable-sandbox'' cmdArgs \<longrightarrow> HasEnableSandbox features)
    \<and> (emits ''--enable-seccomp'' cmdArgs \<longrightarrow> HasEnableSeccomp features)
    \<and> (emits ''--cidr'' cmdArgs \<longrightarrow> HasCIDR features)
    \<and> (emits ''--enable-ipv6'' cmdArgs \<longrightarrow> HasIPv6 features)
    \<and> (emits ''--outbound-addr'' cmdArgs \<longrightarrow> HasOutboundAddr features)
    \<and> (emits ''--outbound-addr6'' cmdArgs \<longrightarrow> HasOutboundAddr features \<and> HasIPv6 features))
   \<and> (needs_absent_feature options features \<longrightarrow>
        (\<exists>e. createBasicSlirp4netnsCmdArgs options features = Inl e \<and> not_supported e))
   \<and> (\<not> needs_absent_feature options features
        \<and> (outboundAddr6 options \<noteq> [] \<longrightarrow> enableIPv6 options) \<longrightarrow>
        (\<exists>cmdArgs. createBasicSlirp4netnsCmdArgs options features = Inr cmdArgs))"
proof (intro conjI allI impI)
  fix cmdArgs
  assume ok: "createBasicSlirp4netnsCmdArgs options features = Inr cmdArgs"
  {
    assume "emits ''--disable-host-loopback'' cmdArgs"
    with builder_flags(1) [OF ok] show "HasDisableHostLoopback features" by simp
  }
  {
    assume "emits ''--mtu'' cmdArgs"
    with builder_flags(2) [OF ok] show "HasMTU features" by simp
  }
  {
    assume "emits ''--enable-sandbox'' cmdArgs"
    with builder_flags(3) [OF ok] show "HasEnableSandbox features" by simp
  }
  {
    assume "emits ''--enable-seccomp'' cmdArgs"
    with builder_flags(4) [OF ok] show "HasEnableSeccomp features" by simp
  }
  {
    assume "emits ''--cidr'' cmdArgs"
    with builder_flags(5) [OF ok] show "HasCIDR features" by simp
  }
  {
    assume "emits ''--enable-ipv6'' cmdArgs"
    with builder_flags(6) [OF ok] show "HasIPv6 features" by simp
  }
  {
    assume "emits ''--outbound-addr'' cmdArgs"
    with builder_flags(7) [OF ok] show "HasOutboundAddr features" by simp
  }
  {
    assume a: "emits ''--outbound-addr6'' cmdArgs"
    with builder_flags(8) [OF ok] show "HasOutboundAddr features" by simp
    from a builder_flags(8) [OF ok] show "HasIPv6 features" by simp
  }
next
  assume "needs_absent_feature options features"
  then show "\<exists>e. createBasicSlirp4netnsCmdArgs options features = Inl e \<and> not_supported e"
    by (rule builder_not_supported)
next
  assume "\<not> needs_absent_feature options features
        \<and> (outboundAddr6 options \<noteq> [] \<longrightarrow> enableIPv6 options)"
  then show "\<exists>cmdArgs. createBasicSlirp4netnsCmdArgs options features = Inr cmdArgs"
    by (auto intro: builder_success)
qed

lemma Sprintf_d_1500: "Sprintf_d 1500 = ''1500''"
  by code_simp

lemma example_build:
  "createBasicSlirp4netnsCmdArgs example_options all_features =
     Inr [''--disable-host-loopback'', ''--mtu=1500'', ''--enable-sandbox'',
          ''--enable-seccomp'', ''--enable-ipv6'']"
  by (simp add: builder_unfold example_options_def all_features_def Sprintf_d_1500)

text \<open>
  The theorem at the end-to-end example with every feature, and with none (an error with
  IPv6 enabled, success with IPv6 disabled).
\<close>

theorem builder_feature_gating_witness:
  "createBasicSlirp4netnsCmdArgs example_options all_features =
     Inr [''--disable-host-loopback'', ''--mtu=1500'', ''--enable-sandbox'',
          ''--enable-seccomp'', ''--enable-ipv6'']
   \<and> emits ''--mtu'' [''--disable-host-loopback'', ''--mtu=1500'', ''--enable-sandbox'',
          ''--enable-seccomp'', ''--enable-ipv6'']
   \<and> HasMTU all_features
   \<and> needs_absent_feature example_options no_features
   \<and> (\<exists>e. createBasicSlirp4netnsCmdArgs example_options no_features = Inl e \<and> not_supported e)
   \<and> \<not> needs_absent_feature (example_options\<lparr>enableIPv6 := False\<rparr>) no_features
   \<and> (\<exists>cmdArgs. createBasicSlirp4netnsCmdArgs (example_options\<lparr>enableIPv6 := False\<rparr>) no_features
         = Inr cmdArgs)"
proof -
  have n: "needs_absent_feature example_options no_features"
    by (simp add: needs_absent_feature_def example_options_def no_features_def)
  have m: "\<not> needs_absent_feature (example_options\<lparr>enableIPv6 := False\<rparr>) no_features
        \<and> (outboundAddr6 (example_options\<lparr>enableIPv6 := False\<rparr>) \<noteq> []
             \<longrightarrow> enableIPv6 (example_options\<lparr>enableIPv6 := False\<rparr>))"
    by (simp add: needs_absent_feature_def example_options_def no_features_def)
  have e: "emits ''--mtu'' [''--disable-host-loopback'', ''--mtu=1500'', ''--enable-sandbox'',
          ''--enable-seccomp'', ''--enable-ipv6'']"
    by (simp add: emits_def)
  from builder_feature_gating [of example_options all_features] example_build e
  have "HasMTU all_features" by blast
  moreover from builder_feature_gating [of example_options no_features] n
  have "\<exists>e. createBasicSlirp4netnsCmdArgs example_options no_features = Inl e \<and> not_supported e"
    by blast
  moreover from builder_feature_gating [of "example_options\<lparr>enableIPv6 := False\<rparr>" no_features] m
  have "\<exists>cmdArgs. createBasicSlirp4netnsCmdArgs (example_options\<lparr>enableIPv6 := False\<rparr>) no_features
         = Inr cmdArgs"
    by blast
  ultimately show ?thesis using example_build e n m by blast
qed

text \<open>
  Claim C2 as it was stated fails for the MTU: the container asks for \<open>mtu=9000\<close>, which is
  not the default, the helper has no \<open>--mtu\<close>, and the build succeeds with no flag at all.
\<close>

theorem silent_omission_counterexample:
  "parseSlirp4netnsNetworkOptions example_net 65520 example_runtime
     [''mtu=9000'', ''enable_ipv6=false'']
   = Inr (example_options\<lparr>mtu := 9000, enableIPv6 := False\<rparr>)
   \<and> mtu (example_options\<lparr>mtu := 9000, enableIPv6 := False\<rparr>) \<noteq> 65520
   \<and> \<not> HasMTU no_features
   \<and> createBasicSlirp4netnsCmdArgs (example_options\<lparr>mtu := 9000, enableIPv6 := False\<rparr>) no_features
     = Inr []"
  by (simp add: parseSlirp4netnsNetworkOptions_def example_runtime_def parseOption_def
        SplitN2_def Atoi_def is_digit_def example_options_def no_features_def builder_unfold)

subsection \<open>\<open>outboundAddr6\<close> needs \<open>enableIPv6\<close>: checked by the builder\<close>

text \<open>
  Claim C3, as amended. Options with \<open>outboundAddr6\<close> set that the argument builder accepts
  have \<open>enableIPv6\<close> true; when \<open>outboundAddr6\<close> is set and \<open>enableIPv6\<close> is false the
  builder fails, with \<open>enable_ipv6=true is required for outbound_addr6\<close> or with a
  \<open>not supported\<close> error.
\<close>

theorem outboundAddr6_checked_by_builder:
  "(\<forall>cmdArgs. createBasicSlirp4netnsCmdArgs options features = Inr cmdArgs
       \<and> outboundAddr6 options \<noteq> [] \<longrightarrow> enableIPv6 options)
   \<and> (outboundAddr6 options \<noteq> [] \<and> \<not> enableIPv6 options \<longrightarrow>
        (\<exists>e. createBasicSlirp4netnsCmdArgs options features = Inl e
           \<and> (e = Errorf ''enable_ipv6=true is required for outbound_addr6'' [] \<or> not_supported e)))"
  unfolding builder_unfold
  by (auto simp: not_supported_def suffix_to_prefix)

text \<open>The theorem at the options parsed from \<open>outbound_addr6=::1\<close>.\<close>

theorem outboundAddr6_checked_by_builder_witness:
  "parseSlirp4netnsNetworkOptions example_net 65520 example_runtime [''outbound_addr6=::1'']
     = Inr (example_options\<lparr>outboundAddr6 := ''::1''\<rparr>)
   \<and> createBasicSlirp4netnsCmdArgs (example_options\<lparr>outboundAddr6 := ''::1''\<rparr>) all_features
     = Inr [''--disable-host-loopback'', ''--mtu=1500'', ''--enable-sandbox'',
          ''--enable-seccomp'', ''--enable-ipv6'', ''--outbound-addr6=::1'']
   \<and> outboundAddr6 (example_options\<lparr>outboundAddr6 := ''::1''\<rparr>) \<noteq> []
   \<and> enableIPv6 (example_options\<lparr>outboundAddr6 := ''::1''\<rparr>)
   \<and> \<not> enableIPv6 (example_options\<lparr>outboundAddr6 := ''::1'', enableIPv6 := False\<rparr>)
   \<and> createBasicSlirp4netnsCmdArgs
        (example_options\<lparr>outboundAddr6 := ''::1'', enableIPv6 := False\<rparr>) all_features
     = Inl (Errorf ''enable_ipv6=true is required for outbound_addr6'' [])"
proof -
  have p: "parseSlirp4netnsNetworkOptions example_net 65520 example_runtime [''outbound_addr6=::1'']
     = Inr (example_options\<lparr>outboundAddr6 := ''::1''\<rparr>)"
    by (simp add: parseSlirp4netnsNetworkOptions_def example_runtime_def parseOption_def
        SplitN2_def Atoi_def is_digit_def example_options_def example_net_def To4_def
        v4InV6Prefix_def)
  have b: "createBasicSlirp4netnsCmdArgs (example_options\<lparr>outboundAddr6 := ''::1''\<rparr>) all_features
     = Inr [''--disable-host-loopback'', ''--mtu=1500'', ''--enable-sandbox'',
          ''--enable-seccomp'', ''--enable-ipv6'', ''--outbound-addr6=::1'']"
    by (simp add: builder_unfold example_options_def all_features_def Sprintf_d_1500)
  have s: "outboundAddr6 (example_options\<lparr>outboundAddr6 := ''::1''\<rparr>) \<noteq> []" by simp
  have f: "createBasicSlirp4netnsCmdArgs
        (example_options\<lparr>outboundAddr6 := ''::1'', enableIPv6 := False\<rparr>) all_features
     = Inl (Errorf ''enable_ipv6=true is required for outbound_addr6'' [])"
    by (simp add: builder_unfold example_options_def all_features_def)
  from outboundAddr6_checked_by_builder [of "example_options\<lparr>outboundAddr6 := ''::1''\<rparr>" all_features]
    b s
  have "enableIPv6 (example_options\<lparr>outboundAddr6 := ''::1''\<rparr>)" by blast
  with p b s f show ?thesis by (simp add: example_options_def)
qed

text \<open>
  Claim C3 as it was stated fails: the parser accepts \<open>enable_ipv6=false\<close> followed by
  \<open>outbound_addr6=::1\<close> and returns options with \<open>outboundAddr6\<close> set and \<open>enableIPv6\<close> false.
\<close>

theorem parser_invariant_counterexample:
  "parseSlirp4netnsNetworkOptions example_net 65520 example_runtime
     [''enable_ipv6=false'', ''outbound_addr6=::1'']
   = Inr (example_options\<lparr>enableIPv6 := False, outboundAddr6 := ''::1''\<rparr>)
   \<and> outboundAddr6 (example_options\<lparr>enableIPv6 := False, outboundAddr6 := ''::1''\<rparr>) \<noteq> []
   \<and> \<not> enableIPv6 (example_options\<lparr>enableIPv6 := False, outboundAddr6 := ''::1''\<rparr>)"
  by (simp add: parseSlirp4netnsNetworkOptions_def example_runtime_def parseOption_def
        SplitN2_def Atoi_def is_digit_def example_options_def example_net_def To4_def
        v4InV6Prefix_def)

subsection \<open>IP arithmetic: bytes and 32-bit words\<close>

lemma nat_bytes:
  assumes "n < 2 ^ 32"
  shows "(n div 2 ^ 24 mod 256) * 2 ^ 24 + (n div 2 ^ 16 mod 256) * 2 ^ 16
    + (n div 2 ^ 8 mod 256) * 2 ^ 8 + n mod 256 = (n :: nat)"
proof -
  define q1 q2 q3 where "q1 = n div 256" and "q2 = q1 div 256" and "q3 = q2 div 256"
  define r0 r1 r2 where "r0 = n mod 256" and "r1 = q1 mod 256" and "r2 = q2 mod 256"
  have e0: "n = q1 * 256 + r0" by (simp add: q1_def r0_def)
  have e1: "q1 = q2 * 256 + r1" by (simp add: q2_def r1_def)
  have e2: "q2 = q3 * 256 + r2" by (simp add: q3_def r2_def)
  have d1: "n div 2 ^ 8 = q1" by (simp add: q1_def)
  have d2: "n div 2 ^ 16 = q2" by (simp add: q1_def q2_def div_mult2_eq)
  have d3: "n div 2 ^ 24 = q3" by (simp add: q1_def q2_def q3_def div_mult2_eq)
  from assms have "q3 < 256" unfolding d3 [symmetric] by simp
  then have m3: "q3 mod 256 = q3" by simp
  have "q3 * 2 ^ 24 + r2 * 2 ^ 16 + r1 * 2 ^ 8 + r0 = n"
    using e0 e1 e2 by simp
  then show ?thesis
    unfolding d1 d2 d3 m3 by (simp add: r0_def r1_def r2_def)
qed

lemma and_ff8: "(x :: 8 word) AND 0xFF = x"
proof -
  have h: "(0xFF :: 8 word) = - 1" by simp
  show ?thesis by (subst h) simp
qed

lemma ucast_and_ff: "(ucast ((w :: 32 word) AND 0xFF) :: 8 word) = ucast w"
proof -
  have h: "(0xFF :: 32 word) = mask 8" by (simp add: mask_eq_exp_minus_1)
  show ?thesis
    unfolding h by (rule bit_word_eqI) (auto simp: bit_simps)
qed

lemma unat_ucast8: "unat (ucast (w :: 32 word) :: 8 word) = unat w mod 256"
  by (simp add: unsigned_ucast_eq take_bit_eq_mod)

lemma uint_ucast32: "uint (ucast (b :: 8 word) :: 32 word) = uint b"
proof -
  have "uint b < 2 ^ 8" using uint_bounded [of b] by simp
  then have "uint b < 2 ^ 32" by simp
  then show ?thesis by (simp add: unsigned_ucast_eq take_bit_int_eq_self)
qed

lemma int_or_add: "0 \<le> k \<Longrightarrow> k < 2 ^ n \<Longrightarrow> k OR push_bit n l = k + push_bit n (l :: int)"
  using concat_bit_eq [of n k l] by (simp add: concat_bit_def take_bit_int_eq_self)

lemma uint_be:
  "uint ((((ucast (d :: 8 word) :: 32 word)
   OR push_bit 8 (ucast (c :: 8 word)))
   OR push_bit 16 (ucast (b :: 8 word)))
   OR push_bit 24 (ucast (a :: 8 word)))
  = uint a * 2 ^ 24 + uint b * 2 ^ 16 + uint c * 2 ^ 8 + uint d"
proof -
  have ba: "0 \<le> uint a" "uint a < 2 ^ 8" using uint_bounded [of a] by simp_all
  have bb: "0 \<le> uint b" "uint b < 2 ^ 8" using uint_bounded [of b] by simp_all
  have bc: "0 \<le> uint c" "uint c < 2 ^ 8" using uint_bounded [of c] by simp_all
  have bd: "0 \<le> uint d" "uint d < 2 ^ 8" using uint_bounded [of d] by simp_all
  have pc: "uint (push_bit 8 (ucast c :: 32 word)) = push_bit 8 (uint c)"
  proof -
    have "uint (push_bit 8 (ucast c :: 32 word)) = take_bit 32 (push_bit 8 (uint c))"
      by (simp add: unsigned_push_bit_eq uint_ucast32)
    also have "\<dots> = push_bit 8 (uint c)"
      by (rule take_bit_int_eq_self) (use bc in \<open>simp_all add: push_bit_eq_mult\<close>)
    finally show ?thesis .
  qed
  have pb: "uint (push_bit 16 (ucast b :: 32 word)) = push_bit 16 (uint b)"
  proof -
    have "uint (push_bit 16 (ucast b :: 32 word)) = take_bit 32 (push_bit 16 (uint b))"
      by (simp add: unsigned_push_bit_eq uint_ucast32)
    also have "\<dots> = push_bit 16 (uint b)"
      by (rule take_bit_int_eq_self) (use bb in \<open>simp_all add: push_bit_eq_mult\<close>)
    finally show ?thesis .
  qed
  have pa: "uint (push_bit 24 (ucast a :: 32 word)) = push_bit 24 (uint a)"
  proof -
    have "uint (push_bit 24 (ucast a :: 32 word)) = take_bit 32 (push_bit 24 (uint a))"
      by (simp add: unsigned_push_bit_eq uint_ucast32)
    also have "\<dots> = push_bit 24 (uint a)"
      by (rule take_bit_int_eq_self) (use ba in \<open>simp_all add: push_bit_eq_mult\<close>)
    finally show ?thesis .
  qed
  have s1: "uint d OR push_bit 8 (uint c) = uint d + push_bit 8 (uint c)"
    using bd by (intro int_or_add) simp_all
  have l1: "uint d + push_bit 8 (uint c) < 2 ^ 16"
    using bd bc by (simp add: push_bit_eq_mult)
  have s2: "(uint d + push_bit 8 (uint c)) OR push_bit 16 (uint b)
      = (uint d + push_bit 8 (uint c)) + push_bit 16 (uint b)"
    using bd bc l1 by (intro int_or_add) (simp_all add: push_bit_eq_mult)
  have l2: "uint d + push_bit 8 (uint c) + push_bit 16 (uint b) < 2 ^ 24"
    using bd bc bb by (simp add: push_bit_eq_mult)
  have s3: "(uint d + push_bit 8 (uint c) + push_bit 16 (uint b)) OR push_bit 24 (uint a)
      = (uint d + push_bit 8 (uint c) + push_bit 16 (uint b)) + push_bit 24 (uint a)"
    using bd bc bb l2 by (intro int_or_add) (simp_all add: push_bit_eq_mult)
  show ?thesis
    by (simp only: unsigned_or_eq pc pb pa uint_ucast32 s1 s2 s3) (simp add: push_bit_eq_mult)
qed

lemma To4_length: "To4 ip = Some x \<Longrightarrow> length x = 4"
  by (auto simp: To4_def split: if_splits)

lemma To4_IPv4: "To4 (IPv4 a b c d) = Some [a, b, c, d]"
  by (simp add: To4_def IPv4_def v4InV6Prefix_def)

lemma be32_4: "be32 [a, b, c, d] = unat a * 2 ^ 24 + unat b * 2 ^ 16 + unat c * 2 ^ 8 + unat d"
  by (simp add: be32_def)

lemma unat_be:
  "unat ((((ucast (d :: 8 word) :: 32 word)
   OR push_bit 8 (ucast (c :: 8 word)))
   OR push_bit 16 (ucast (b :: 8 word)))
   OR push_bit 24 (ucast (a :: 8 word))) = be32 [a, b, c, d]"
proof -
  let ?w = "(((ucast d :: 32 word) OR push_bit 8 (ucast c)) OR push_bit 16 (ucast b))
              OR push_bit 24 (ucast a)"
  have "int (unat ?w) = uint ?w" by simp
  also have "\<dots> = uint a * 2 ^ 24 + uint b * 2 ^ 16 + uint c * 2 ^ 8 + uint d"
    by (rule uint_be)
  also have "\<dots> = int (be32 [a, b, c, d])"
    by (simp add: be32_4)
  finally show ?thesis by (simp only: of_nat_eq_iff)
qed

lemma bytes_of_word:
  "be32 [ucast (drop_bit 24 w), ucast (drop_bit 16 w AND 0xFF),
         ucast (drop_bit 8 w) AND 0xFF, ucast (w AND 0xFF)] = unat (w :: 32 word)"
proof -
  have lt: "unat w < 2 ^ 32" using unsigned_less [of w] by simp
  then have "unat w div 16777216 < 256" by simp
  then have hi: "unat w div 16777216 mod 256 = unat w div 16777216" by simp
  show ?thesis
    unfolding be32_4 and_ff8 ucast_and_ff unat_ucast8 unat_drop_bit_eq
    using nat_bytes [OF lt] hi by (simp add: drop_bit_eq_div)
qed

lemma overflow_iff:
  "(x + y < (x :: 32 word)) = (2 ^ 32 \<le> unat x + unat y)"
proof -
  have "(x \<le> x + y) = (unat x + unat y < 2 ^ 32)"
    using no_olen_add_nat [of x y] by simp
  then show ?thesis by (simp add: not_le [symmetric] del: not_le)
qed

subsection \<open>IP arithmetic: \<open>addToIP\<close>\<close>

lemma addToIP_cases:
  assumes base: "To4 (IP S) = Some base"
  shows "\<exists>ip ip4. To4 ip = Some ip4 \<and> be32 ip4 = (be32 base + unat off) mod 2 ^ 32 \<and>
     addToIP S off =
       (if 2 ^ 32 \<le> be32 base + unat off
        then Inl (Errorf ''integer overflow while calculating ip address offset, %s + %d''
                    [Addr base, Num (uint off)])
        else if Contains S ip then Inr ip
        else Inl (Errorf ''calculated ip address %s is not within given subnet %s''
                    [Addr ip, Subnet S]))"
proof -
  from To4_length [OF base] obtain a b c d where b4: "base = [a, b, c, d]"
    by (auto simp: length_Suc_conv eval_nat_numeral)
  define ipInteger :: "32 word" where
    "ipInteger = ((ucast d OR push_bit 8 (ucast c)) OR push_bit 16 (ucast b)) OR push_bit 24 (ucast a)"
  define w where "w = ipInteger + off"
  define ipNew where "ipNew = IPv4 (ucast (drop_bit 24 w)) (ucast (drop_bit 16 w AND 0xFF))
                            (ucast (drop_bit 8 w) AND 0xFF) (ucast (w AND 0xFF))"
  have ui: "unat ipInteger = be32 base"
    unfolding ipInteger_def b4 by (rule unat_be)
  have t4: "To4 ipNew = Some [ucast (drop_bit 24 w), ucast (drop_bit 16 w AND 0xFF),
                            ucast (drop_bit 8 w) AND 0xFF, ucast (w AND 0xFF)]"
    unfolding ipNew_def by (rule To4_IPv4)
  have bw: "be32 [ucast (drop_bit 24 w), ucast (drop_bit 16 w AND 0xFF),
                  ucast (drop_bit 8 w) AND 0xFF, ucast (w AND 0xFF)] = (be32 base + unat off) mod 2 ^ 32"
    unfolding bytes_of_word w_def by (simp add: unat_word_ariths ui)
  have ov: "(w < ipInteger) = (2 ^ 32 \<le> be32 base + unat off)"
    unfolding w_def overflow_iff ui ..
  have "addToIP S off =
       (if 2 ^ 32 \<le> be32 base + unat off
        then Inl (Errorf ''integer overflow while calculating ip address offset, %s + %d''
                    [Addr base, Num (uint off)])
        else if Contains S ipNew then Inr ipNew
        else Inl (Errorf ''calculated ip address %s is not within given subnet %s''
                    [Addr ipNew, Subnet S]))"
    unfolding addToIP_def base option.case Let_def
    using ov
    by (simp add: b4 ipInteger_def [symmetric] w_def [symmetric] ipNew_def [symmetric])
  with t4 bw show ?thesis by blast
qed

text \<open>
  Claim C4, as amended. For a subnet whose base converts to four bytes and any offset (2, 3
  and 100 among them): an address that \<open>addToIP\<close> returns is a member of the subnet and its
  four bytes read big-endian are the base plus the offset; when the sum reaches \<open>2 ^ 32\<close> the
  result is the overflow error; when it does not, \<open>addToIP\<close> returns an address or, the sum
  lying outside the subnet, the error \<open>not within given subnet\<close>.
\<close>

theorem addToIP_spec:
  assumes "To4 (IP S) = Some base"
  shows "(\<forall>ip. addToIP S off = Inr ip \<longrightarrow>
            Contains S ip \<and> (\<exists>ip4. To4 ip = Some ip4 \<and> be32 ip4 = be32 base + unat off))
       \<and> (2 ^ 32 \<le> be32 base + unat off \<longrightarrow>
            addToIP S off = Inl (Errorf ''integer overflow while calculating ip address offset, %s + %d''
                                   [Addr base, Num (uint off)]))
       \<and> (be32 base + unat off < 2 ^ 32 \<longrightarrow>
            (\<exists>ip. addToIP S off = Inr ip)
            \<or> (\<exists>ip ip4. To4 ip = Some ip4 \<and> be32 ip4 = be32 base + unat off \<and> \<not> Contains S ip \<and>
                 addToIP S off = Inl (Errorf ''calculated ip address %s is not within given subnet %s''
                                        [Addr ip, Subnet S])))"
proof -
  from addToIP_cases [OF assms, of off] obtain ip ip4 where
    t: "To4 ip = Some ip4" and b: "be32 ip4 = (be32 base + unat off) mod 2 ^ 32" and
    r: "addToIP S off =
       (if 2 ^ 32 \<le> be32 base + unat off
        then Inl (Errorf ''integer overflow while calculating ip address offset, %s + %d''
                    [Addr base, Num (uint off)])
        else if Contains S ip then Inr ip
        else Inl (Errorf ''calculated ip address %s is not within given subnet %s''
                    [Addr ip, Subnet S]))"
    by blast
  show ?thesis
  proof (intro conjI allI impI)
    fix x
    assume x: "addToIP S off = Inr x"
    with r have lt: "be32 base + unat off < 2 ^ 32" and c: "Contains S ip" and e: "x = ip"
      by (auto split: if_splits)
    from c e show "Contains S x" by simp
    from lt b t e show "\<exists>ip4. To4 x = Some ip4 \<and> be32 ip4 = be32 base + unat off"
      by simp
  next
    assume "2 ^ 32 \<le> be32 base + unat off"
    with r show "addToIP S off = Inl (Errorf ''integer overflow while calculating ip address offset, %s + %d''
                                   [Addr base, Num (uint off)])"
      by simp
  next
    assume lt: "be32 base + unat off < 2 ^ 32"
    with b have e: "be32 ip4 = be32 base + unat off" by simp
    show "(\<exists>ip. addToIP S off = Inr ip)
            \<or> (\<exists>ip ip4. To4 ip = Some ip4 \<and> be32 ip4 = be32 base + unat off \<and> \<not> Contains S ip \<and>
                 addToIP S off = Inl (Errorf ''calculated ip address %s is not within given subnet %s''
                                        [Addr ip, Subnet S]))"
    proof (cases "Contains S ip")
      case True
      with lt r show ?thesis by simp
    next
      case False
      with lt r have "addToIP S off = Inl (Errorf ''calculated ip address %s is not within given subnet %s''
                                        [Addr ip, Subnet S])"
        by simp
      with t e False show ?thesis by blast
    qed
  qed
qed

lemma addToIP_24_100: "addToIP subnet_10_0_2_0_24 100 = Inr (IPv4 10 0 2 100)"
  by (simp add: addToIP_def subnet_10_0_2_0_24_def To4_def IPv4_def v4InV6Prefix_def Contains_def
        networkNumberAndMask_def Let_def)

text \<open>
  Claim C4 as it was stated fails: in 10.0.2.0/30 the offset 100 does not wrap, and
  \<open>addToIP\<close> returns no address but the error \<open>not within given subnet\<close>.
\<close>

theorem addToIP_not_within_counterexample:
  "To4 (IP subnet_10_0_2_0_30) = Some [10, 0, 2, 0]
   \<and> addToIP subnet_10_0_2_0_30 100 =
       Inl (Errorf ''calculated ip address %s is not within given subnet %s''
              [Addr (IPv4 10 0 2 100), Subnet subnet_10_0_2_0_30])"
  by (simp add: addToIP_def subnet_10_0_2_0_30_def To4_def IPv4_def v4InV6Prefix_def Contains_def
        networkNumberAndMask_def Let_def)

text \<open>The theorem at 10.0.2.0/24 and at 255.255.255.240/28, offset 100.\<close>

theorem addToIP_spec_witness:
  "To4 (IP subnet_10_0_2_0_24) = Some [10, 0, 2, 0]
   \<and> addToIP subnet_10_0_2_0_24 100 = Inr (IPv4 10 0 2 100)
   \<and> Contains subnet_10_0_2_0_24 (IPv4 10 0 2 100)
   \<and> (\<exists>ip4. To4 (IPv4 10 0 2 100) = Some ip4 \<and> be32 ip4 = be32 [10, 0, 2, 0] + unat (100 :: 32 word))
   \<and> To4 (IP subnet_255_255_255_240_28) = Some [255, 255, 255, 240]
   \<and> 2 ^ 32 \<le> be32 [255, 255, 255, 240] + unat (100 :: 32 word)
   \<and> addToIP subnet_255_255_255_240_28 100 =
       Inl (Errorf ''integer overflow while calculating ip address offset, %s + %d''
              [Addr [255, 255, 255, 240], Num (uint (100 :: 32 word))])"
proof -
  have b1: "To4 (IP subnet_10_0_2_0_24) = Some [10, 0, 2, 0]"
    by (simp add: subnet_10_0_2_0_24_def To4_def)
  have b2: "To4 (IP subnet_255_255_255_240_28) = Some [255, 255, 255, 240]"
    by (simp add: subnet_255_255_255_240_28_def To4_def)
  have o: "2 ^ 32 \<le> be32 [255, 255, 255, 240] + unat (100 :: 32 word)"
    by (simp add: be32_def)
  from addToIP_spec [OF b1, of 100] addToIP_24_100
  have "Contains subnet_10_0_2_0_24 (IPv4 10 0 2 100)
    \<and> (\<exists>ip4. To4 (IPv4 10 0 2 100) = Some ip4 \<and> be32 ip4 = be32 [10, 0, 2, 0] + unat (100 :: 32 word))"
    by blast
  moreover from addToIP_spec [OF b2, of 100] o
  have "addToIP subnet_255_255_255_240_28 100 =
       Inl (Errorf ''integer overflow while calculating ip address offset, %s + %d''
              [Addr [255, 255, 255, 240], Num (uint (100 :: 32 word))])"
    by blast
  ultimately show ?thesis using b1 b2 o addToIP_24_100 by blast
qed

text \<open>
  Claim C10. When the base of the subnet does not convert to four bytes, \<open>addToIP\<close> and the
  three getters panic on the index \<open>ipFixed[3]\<close> and return no error value; when it
  converts, \<open>addToIP\<close> never panics.
\<close>

theorem addToIP_panics_without_IPv4_base:
  "(To4 (IP S) = None \<longrightarrow>
       addToIP S off = Inl (Panic ''runtime error: index out of range [3] with length 0'')
     \<and> GetSlirp4netnsIP net dflt (Some S)
         = Inl (Panic ''runtime error: index out of range [3] with length 0'')
     \<and> GetSlirp4netnsGateway net dflt (Some S)
         = Inl (Panic ''runtime error: index out of range [3] with length 0'')
     \<and> GetSlirp4netnsDNS net dflt (Some S)
         = Inl (Panic ''runtime error: index out of range [3] with length 0''))
   \<and> (To4 (IP S) \<noteq> None \<longrightarrow> (\<forall>msg. addToIP S off \<noteq> Inl (Panic msg)))"
proof (intro conjI impI allI)
  assume n: "To4 (IP S) = None"
  then show a: "addToIP S off = Inl (Panic ''runtime error: index out of range [3] with length 0'')"
    for off by (simp add: addToIP_def)
  show "GetSlirp4netnsIP net dflt (Some S)
         = Inl (Panic ''runtime error: index out of range [3] with length 0'')"
    by (simp add: GetSlirp4netnsIP_def slirpSubnetOr_def addToSubnet_def a)
  show "GetSlirp4netnsGateway net dflt (Some S)
         = Inl (Panic ''runtime error: index out of range [3] with length 0'')"
    by (simp add: GetSlirp4netnsGateway_def slirpSubnetOr_def addToSubnet_def a)
  show "GetSlirp4netnsDNS net dflt (Some S)
         = Inl (Panic ''runtime error: index out of range [3] with length 0'')"
    by (simp add: GetSlirp4netnsDNS_def slirpSubnetOr_def addToSubnet_def a)
next
  fix msg
  assume "To4 (IP S) \<noteq> None"
  then obtain base where "To4 (IP S) = Some base" by auto
  from addToIP_cases [OF this, of off] show "addToIP S off \<noteq> Inl (Panic msg)"
    by (auto split: if_splits)
qed

text \<open>The theorem at fd00::/64 and at 10.0.2.0/24.\<close>

theorem addToIP_panics_without_IPv4_base_witness:
  "To4 (IP subnet_fd00_64) = None
   \<and> addToIP subnet_fd00_64 100 = Inl (Panic ''runtime error: index out of range [3] with length 0'')
   \<and> GetSlirp4netnsIP example_net ''10.0.2.0/24'' (Some subnet_fd00_64)
       = Inl (Panic ''runtime error: index out of range [3] with length 0'')
   \<and> To4 (IP subnet_10_0_2_0_24) \<noteq> None
   \<and> addToIP subnet_10_0_2_0_24 100 \<noteq> Inl (Panic ''runtime error: index out of range [3] with length 0'')"
proof -
  have n: "To4 (IP subnet_fd00_64) = None"
    by (simp add: subnet_fd00_64_def To4_def v4InV6Prefix_def)
  have s: "To4 (IP subnet_10_0_2_0_24) \<noteq> None"
    by (simp add: subnet_10_0_2_0_24_def To4_def)
  from addToIP_panics_without_IPv4_base [of subnet_fd00_64 100 example_net "''10.0.2.0/24''"] n
    addToIP_panics_without_IPv4_base [of subnet_10_0_2_0_24 100] s
  show ?thesis by blast
qed

subsection \<open>The readiness barrier\<close>











subsection \<open>Port forwarding through the control socket\<close>

lemma issue_Nil: "issue [] st = st"
  by (simp add: issue_def)

lemma issue_append: "issue (xs @ ys) st = issue ys (issue xs st)"
  by (simp add: issue_def)

lemma forEach_append:
  "forEach body (xs @ ys) st
   = (case forEach body xs st of
        (Inl err, st') \<Rightarrow> (Inl err, st')
      | (Inr u, st') \<Rightarrow> forEach body ys st')"
  by (induction xs arbitrary: st) (auto split: prod.splits sum.splits)

lemma forEach_concat:
  "forEach (\<lambda>x. forEach body (g x)) xs st = forEach body (concat (map g xs)) st"
  by (induction xs arbitrary: st) (auto simp: forEach_append split: prod.splits sum.splits)

lemma forEach_map: "forEach body (map f xs) st = forEach (\<lambda>x. body (f x)) xs st"
  by (induction xs arbitrary: st) (auto split: prod.splits sum.splits)

lemma open_command_add_hostfwd:
  "open_command sock apiSocket (add_hostfwd proto hostip hostport guestport)
   = openSlirp4netnsPort sock apiSocket proto hostip hostport guestport"
  by (simp add: open_command_def add_hostfwd_def)

lemma range_flat:
  "forEach (\<lambda>i. openSlirp4netnsPort sock apiSocket protocol
                        (if HostIP port = [] then ''0.0.0.0'' else HostIP port)
                        (PortMapping.HostPort port + i) (ContainerPort port + i))
           (map of_nat [0..<unat (Range port)])
   = forEach (open_command sock apiSocket) (commands_of port protocol)"
  by (rule ext) (simp add: commands_of_def forEach_map open_command_add_hostfwd)

lemma forEach_concat_fun:
  "forEach (\<lambda>x. forEach body (g x)) xs = forEach body (concat (map g xs))"
  by (rule ext) (rule forEach_concat)

lemma setup_flat:
  "setupRootlessPortMappingViaSlirp sock None ports apiSocket st
   = forEach (open_command sock apiSocket) (expansion ports) st"
  unfolding setupRootlessPortMappingViaSlirp_def expansion_def option.case Let_def range_flat
  by (simp only: forEach_concat_fun)

lemma expansion_hostfwd: "c \<in> set (expansion ports) \<Longrightarrow> \<exists>p h hp gp. c = add_hostfwd p h hp gp"
  by (auto simp: expansion_def commands_of_def)

lemma open_accepted:
  assumes "accepted sock (calls st) c" and "\<exists>p h hp gp. c = add_hostfwd p h hp gp"
  shows "open_command sock apiSocket c st = (Inr (), issue [c] st)"
  using assms
  by (auto simp: open_command_def openSlirp4netnsPort_def add_hostfwd_def afterMarshal_def
        issue_def Let_def accepted_def split: exchange.splits sum.splits)

lemma open_refused:
  assumes "\<not> accepted sock (calls st) c" and "\<exists>p h hp gp. c = add_hostfwd p h hp gp"
  shows "\<exists>err. fst (open_command sock apiSocket c st) = Inl err"
    and "calls (snd (open_command sock apiSocket c st)) = Suc (calls st)"
    and "written (snd (open_command sock apiSocket c st)) = written st
         \<or> written (snd (open_command sock apiSocket c st)) = written st @ [c]"
  using assms
  by (auto simp: open_command_def openSlirp4netnsPort_def add_hostfwd_def afterMarshal_def
        issue_def Let_def accepted_def split: exchange.splits sum.splits option.splits)

lemma forEach_all_accepted:
  assumes "\<forall>i<length cs. accepted sock (calls st + i) (cs ! i)"
    and "\<forall>c\<in>set cs. \<exists>p h hp gp. c = add_hostfwd p h hp gp"
  shows "forEach (open_command sock apiSocket) cs st = (Inr (), issue cs st)"
  using assms
proof (induction cs arbitrary: st)
  case Nil
  then show ?case by (simp add: issue_Nil)
next
  case (Cons c cs)
  from Cons.prems(1) have "accepted sock (calls st) c" by fastforce
  with Cons.prems(2) have o: "open_command sock apiSocket c st = (Inr (), issue [c] st)"
    by (intro open_accepted) simp_all
  have "\<forall>i<length cs. accepted sock (calls (issue [c] st) + i) (cs ! i)"
  proof (intro allI impI)
    fix i assume "i < length cs"
    with Cons.prems(1) have "accepted sock (calls st + Suc i) ((c # cs) ! Suc i)" by fastforce
    then show "accepted sock (calls (issue [c] st) + i) (cs ! i)" by (simp add: issue_def)
  qed
  with Cons.IH [of "issue [c] st"] Cons.prems(2)
  have "forEach (open_command sock apiSocket) cs (issue [c] st) = (Inr (), issue cs (issue [c] st))"
    by simp
  with o show ?case using issue_append [of "[c]" cs st] by simp
qed

lemma forEach_stops:
  assumes "j < length cs" and "\<forall>i<j. accepted sock (calls st + i) (cs ! i)"
    and "\<not> accepted sock (calls st + j) (cs ! j)"
    and "\<forall>c\<in>set cs. \<exists>p h hp gp. c = add_hostfwd p h hp gp"
  shows "forEach (open_command sock apiSocket) cs st
         = open_command sock apiSocket (cs ! j) (issue (take j cs) st)"
proof -
  from assms(1) have cs: "cs = take j cs @ (cs ! j) # drop (Suc j) cs"
    by (simp add: id_take_nth_drop)
  have a: "forEach (open_command sock apiSocket) (take j cs) st = (Inr (), issue (take j cs) st)"
  proof (rule forEach_all_accepted)
    from assms(1,2) show "\<forall>i<length (take j cs). accepted sock (calls st + i) (take j cs ! i)"
      by simp
    from assms(4) show "\<forall>c\<in>set (take j cs). \<exists>p h hp gp. c = add_hostfwd p h hp gp"
      by (meson in_set_takeD)
  qed
  from assms(1) have c: "calls (issue (take j cs) st) = calls st + j" by (simp add: issue_def)
  from assms(1,4) have h: "\<exists>p h hp gp. cs ! j = add_hostfwd p h hp gp" by simp
  from open_refused(1) [of sock "issue (take j cs) st" "cs ! j" apiSocket] assms(3) c h
  obtain err where e: "fst (open_command sock apiSocket (cs ! j) (issue (take j cs) st)) = Inl err"
    by auto
  have "forEach (open_command sock apiSocket) cs st
        = forEach (open_command sock apiSocket) (take j cs @ (cs ! j) # drop (Suc j) cs) st"
    using cs by simp
  also have "\<dots> = forEach (open_command sock apiSocket) ((cs ! j) # drop (Suc j) cs)
                     (issue (take j cs) st)"
    unfolding forEach_append a by simp
  also have "\<dots> = open_command sock apiSocket (cs ! j) (issue (take j cs) st)"
    using e by (cases "open_command sock apiSocket (cs ! j) (issue (take j cs) st)") auto
  finally show ?thesis .
qed


lemma setup_all_accepted:
  assumes "\<forall>i<length (expansion ports). accepted sock (calls st + i) (expansion ports ! i)"
  shows "setupRootlessPortMappingViaSlirp sock None ports apiSocket st
         = (Inr (), issue (expansion ports) st)"
  unfolding setup_flat using assms
  by (rule forEach_all_accepted) (blast intro: expansion_hostfwd)

lemma setup_stops:
  assumes "j < length (expansion ports)"
    and "\<forall>i<j. accepted sock (calls st + i) (expansion ports ! i)"
    and "\<not> accepted sock (calls st + j) (expansion ports ! j)"
  shows "setupRootlessPortMappingViaSlirp sock None ports apiSocket st
         = open_command sock apiSocket (expansion ports ! j) (issue (take j (expansion ports)) st)"
  unfolding setup_flat using assms
  by (rule forEach_stops) (blast intro: expansion_hostfwd)

lemma open_within:
  "\<exists>zs. prefix zs [add_hostfwd proto hostip hostport guestport]
     \<and> written (snd (openSlirp4netnsPort sock apiSocket proto hostip hostport guestport st))
         = written st @ zs
     \<and> (fst (openSlirp4netnsPort sock apiSocket proto hostip hostport guestport st) = Inr ()
          \<longrightarrow> zs = [add_hostfwd proto hostip hostport guestport])"
proof -
  let ?c = "add_hostfwd proto hostip hostport guestport"
  let ?r = "openSlirp4netnsPort sock apiSocket proto hostip hostport guestport st"
  have "(written (snd ?r) = written st \<and> fst ?r \<noteq> Inr ())
      \<or> written (snd ?r) = written st @ [?c]"
    by (auto simp: openSlirp4netnsPort_def add_hostfwd_def afterMarshal_def Let_def
             split: exchange.splits option.splits sum.splits)
  then show ?thesis
  proof
    assume "written (snd ?r) = written st \<and> fst ?r \<noteq> Inr ()"
    then have "prefix [] [?c] \<and> written (snd ?r) = written st @ [] \<and> (fst ?r = Inr () \<longrightarrow> [] = [?c])"
      by simp
    then show ?thesis by blast
  next
    assume "written (snd ?r) = written st @ [?c]"
    then have "prefix [?c] [?c] \<and> written (snd ?r) = written st @ [?c]
        \<and> (fst ?r = Inr () \<longrightarrow> [?c] = [?c])"
      by simp
    then show ?thesis by blast
  qed
qed

lemma forEach_within:
  assumes "\<And>x st. x \<in> set xs \<Longrightarrow>
     \<exists>zs. prefix zs (g x) \<and> written (snd (body x st)) = written st @ zs
        \<and> (fst (body x st) = Inr () \<longrightarrow> zs = g x)"
  shows "\<exists>zs. prefix zs (concat (map g xs)) \<and> written (snd (forEach body xs st)) = written st @ zs
        \<and> (fst (forEach body xs st) = Inr () \<longrightarrow> zs = concat (map g xs))"
  using assms
proof (induction xs arbitrary: st)
  case Nil
  then show ?case by simp
next
  case (Cons x xs)
  from Cons.prems [of x st] obtain zs where z: "prefix zs (g x)"
    "written (snd (body x st)) = written st @ zs" "fst (body x st) = Inr () \<longrightarrow> zs = g x"
    by auto
  obtain r st' where b: "body x st = (r, st')" by (cases "body x st")
  show ?case
  proof (cases r)
    case (Inl err)
    with b have "forEach body (x # xs) st = (Inl err, st')" by simp
    moreover from z(1) have "prefix zs (concat (map g (x # xs)))"
      by (simp add: prefix_prefix)
    ultimately show ?thesis using z(2) b by auto
  next
    case (Inr u)
    with b have f: "forEach body (x # xs) st = forEach body xs st'" by simp
    from Inr b z have w: "written st' = written st @ g x" by simp
    from Cons.IH [of st'] Cons.prems obtain ys where y: "prefix ys (concat (map g xs))"
      "written (snd (forEach body xs st')) = written st' @ ys"
      "fst (forEach body xs st') = Inr () \<longrightarrow> ys = concat (map g xs)"
      by auto
    from y(1) have "prefix (g x @ ys) (concat (map g (x # xs)))" by simp
    moreover from y(2) w have "written (snd (forEach body (x # xs) st)) = written st @ (g x @ ys)"
      unfolding f by simp
    moreover from y(3) have "fst (forEach body (x # xs) st) = Inr ()
        \<longrightarrow> g x @ ys = concat (map g (x # xs))"
      unfolding f by simp
    ultimately show ?thesis by blast
  qed
qed

lemma range_within:
  "\<exists>zs. prefix zs (commands_of port protocol)
     \<and> written (snd (forEach (\<lambda>i. openSlirp4netnsPort sock apiSocket protocol
                        (if HostIP port = [] then ''0.0.0.0'' else HostIP port)
                        (PortMapping.HostPort port + i) (ContainerPort port + i))
           (map of_nat [0..<unat (Range port)]) st)) = written st @ zs
     \<and> (fst (forEach (\<lambda>i. openSlirp4netnsPort sock apiSocket protocol
                        (if HostIP port = [] then ''0.0.0.0'' else HostIP port)
                        (PortMapping.HostPort port + i) (ContainerPort port + i))
           (map of_nat [0..<unat (Range port)]) st) = Inr () \<longrightarrow> zs = commands_of port protocol)"
proof -
  have e: "concat (map (\<lambda>i. [add_hostfwd protocol
                        (if HostIP port = [] then ''0.0.0.0'' else HostIP port)
                        (PortMapping.HostPort port + i) (ContainerPort port + i)])
              (map of_nat [0..<unat (Range port)])) = commands_of port protocol"
    by (simp add: commands_of_def concat_map_singleton comp_def)
  show ?thesis
    unfolding e [symmetric] by (rule forEach_within) (rule open_within)
qed

lemma setup_within:
  "\<exists>zs. prefix zs (expansion ports)
     \<and> written (snd (setupRootlessPortMappingViaSlirp sock waitForFile ports apiSocket st))
         = written st @ zs
     \<and> (fst (setupRootlessPortMappingViaSlirp sock waitForFile ports apiSocket st) = Inr ()
          \<longrightarrow> zs = expansion ports)"
proof (cases waitForFile)
  case (Some err)
  then have "prefix [] (expansion ports)
     \<and> written (snd (setupRootlessPortMappingViaSlirp sock waitForFile ports apiSocket st))
         = written st @ []
     \<and> (fst (setupRootlessPortMappingViaSlirp sock waitForFile ports apiSocket st) = Inr ()
          \<longrightarrow> [] = expansion ports)"
    by (simp add: setupRootlessPortMappingViaSlirp_def)
  then show ?thesis by blast
next
  case None
  have "\<exists>zs. prefix zs (expansion ports)
     \<and> written (snd (setupRootlessPortMappingViaSlirp sock None ports apiSocket st)) = written st @ zs
     \<and> (fst (setupRootlessPortMappingViaSlirp sock None ports apiSocket st) = Inr ()
          \<longrightarrow> zs = expansion ports)"
    unfolding setupRootlessPortMappingViaSlirp_def expansion_def option.case Let_def
    by (intro forEach_within range_within)
  with None show ?thesis by blast
qed

lemma example_expansion:
  "expansion [example_mapping]
   = [add_hostfwd ''tcp'' ''0.0.0.0'' 8080 80, add_hostfwd ''tcp'' ''0.0.0.0'' 8081 81,
      add_hostfwd ''udp'' ''0.0.0.0'' 8080 80, add_hostfwd ''udp'' ''0.0.0.0'' 8081 81]"
  by (simp add: expansion_def commands_of_def example_mapping_def upt_rec)


text \<open>
  Claim C6. The socket file having appeared, \<open>setupRootlessPortMappingViaSlirp\<close> sends
  the commands of the mappings in their order, one connection each: the mappings in the
  given order, then the protocols of the mapping, then the offsets below the range. If
  the far end accepts each of them, the function succeeds after writing exactly that
  list. If command \<open>j\<close> is the first that is not accepted, the function does what
  \<^verbatim>\<open>openSlirp4netnsPort\<close> does on that command after the first \<open>j\<close>: it returns the error,
  has opened \<open>j + 1\<close> connections, and has written the first \<open>j\<close> commands or the first
  \<open>j + 1\<close>; no later command is sent. When the socket file has not appeared the function
  returns that error and sends nothing. Whenever the function succeeds it has written the
  whole list, and in every case what is written is an initial segment of the list. For the mapping tcp,udp 0.0.0.0 8080 to 80
  with range 2 the list is tcp 8080 to 80, tcp 8081 to 81, udp 8080 to 80, udp 8081 to 81.
\<close>

theorem hostfwd_commands_in_order:
  "((\<forall>i<length (expansion ports). accepted sock (calls st + i) (expansion ports ! i)) \<longrightarrow>
      setupRootlessPortMappingViaSlirp sock None ports apiSocket st
        = (Inr (), st\<lparr>calls := calls st + length (expansion ports),
                       written := written st @ expansion ports\<rparr>))
   \<and> (j < length (expansion ports)
        \<and> (\<forall>i<j. accepted sock (calls st + i) (expansion ports ! i))
        \<and> \<not> accepted sock (calls st + j) (expansion ports ! j) \<longrightarrow>
      setupRootlessPortMappingViaSlirp sock None ports apiSocket st
        = open_command sock apiSocket (expansion ports ! j)
            (st\<lparr>calls := calls st + j, written := written st @ take j (expansion ports)\<rparr>)
      \<and> (\<exists>err. fst (setupRootlessPortMappingViaSlirp sock None ports apiSocket st) = Inl err)
      \<and> calls (snd (setupRootlessPortMappingViaSlirp sock None ports apiSocket st))
          = calls st + Suc j
      \<and> (written (snd (setupRootlessPortMappingViaSlirp sock None ports apiSocket st))
            = written st @ take j (expansion ports)
          \<or> written (snd (setupRootlessPortMappingViaSlirp sock None ports apiSocket st))
            = written st @ take (Suc j) (expansion ports)))
   \<and> (waitForFile = Some werr \<longrightarrow>
        setupRootlessPortMappingViaSlirp sock waitForFile ports apiSocket st
          = (Inl (Errorf ''waiting for slirp4nets to create the api socket file %s: %w''
                    [Str apiSocket, Wrapped werr]), st))
   \<and> (fst (setupRootlessPortMappingViaSlirp sock waitForFile ports apiSocket st) = Inr () \<longrightarrow>
        written (snd (setupRootlessPortMappingViaSlirp sock waitForFile ports apiSocket st))
          = written st @ expansion ports)
   \<and> (\<exists>zs. prefix zs (expansion ports)
        \<and> written (snd (setupRootlessPortMappingViaSlirp sock waitForFile ports apiSocket st))
            = written st @ zs)
   \<and> expansion [\<lparr>HostIP = ''0.0.0.0'', ContainerPort = 80, HostPort = 8080, Range = 2,
                   Protocol = ''tcp,udp''\<rparr>]
       = [add_hostfwd ''tcp'' ''0.0.0.0'' 8080 80, add_hostfwd ''tcp'' ''0.0.0.0'' 8081 81,
          add_hostfwd ''udp'' ''0.0.0.0'' 8080 80, add_hostfwd ''udp'' ''0.0.0.0'' 8081 81]"
proof (intro conjI impI)
  assume "\<forall>i<length (expansion ports). accepted sock (calls st + i) (expansion ports ! i)"
  then show "setupRootlessPortMappingViaSlirp sock None ports apiSocket st
        = (Inr (), st\<lparr>calls := calls st + length (expansion ports),
                       written := written st @ expansion ports\<rparr>)"
    by (simp add: setup_all_accepted issue_def)
next
  let ?r = "setupRootlessPortMappingViaSlirp sock None ports apiSocket st"
  let ?st = "st\<lparr>calls := calls st + j, written := written st @ take j (expansion ports)\<rparr>"
  assume a: "j < length (expansion ports)
        \<and> (\<forall>i<j. accepted sock (calls st + i) (expansion ports ! i))
        \<and> \<not> accepted sock (calls st + j) (expansion ports ! j)"
  then have r: "?r = open_command sock apiSocket (expansion ports ! j) ?st"
    using setup_stops [of j ports sock st apiSocket] by (simp add: issue_def)
  from a have n: "\<not> accepted sock (calls ?st) (expansion ports ! j)" by simp
  from a have "expansion ports ! j \<in> set (expansion ports)" by simp
  then have h: "\<exists>p h hp gp. expansion ports ! j = add_hostfwd p h hp gp"
    by (rule expansion_hostfwd)
  from a have t: "take (Suc j) (expansion ports) = take j (expansion ports) @ [expansion ports ! j]"
    by (simp add: take_Suc_conv_app_nth)
  show "?r = open_command sock apiSocket (expansion ports ! j) ?st" by (rule r)
  show "\<exists>err. fst ?r = Inl err" unfolding r by (rule open_refused(1) [OF n h])
  show "calls (snd ?r) = calls st + Suc j" unfolding r using open_refused(2) [OF n h] by simp
  show "written (snd ?r) = written st @ take j (expansion ports)
      \<or> written (snd ?r) = written st @ take (Suc j) (expansion ports)"
    unfolding r t using open_refused(3) [OF n h, of apiSocket] by simp
next
  assume "waitForFile = Some werr"
  then show "setupRootlessPortMappingViaSlirp sock waitForFile ports apiSocket st
          = (Inl (Errorf ''waiting for slirp4nets to create the api socket file %s: %w''
                    [Str apiSocket, Wrapped werr]), st)"
    by (simp add: setupRootlessPortMappingViaSlirp_def)
next
  assume "fst (setupRootlessPortMappingViaSlirp sock waitForFile ports apiSocket st) = Inr ()"
  with setup_within [of ports sock waitForFile apiSocket st]
  show "written (snd (setupRootlessPortMappingViaSlirp sock waitForFile ports apiSocket st))
          = written st @ expansion ports"
    by auto
next
  from setup_within [of ports sock waitForFile apiSocket st]
  show "\<exists>zs. prefix zs (expansion ports)
        \<and> written (snd (setupRootlessPortMappingViaSlirp sock waitForFile ports apiSocket st))
            = written st @ zs"
    by blast
next
  from example_expansion
  show "expansion [\<lparr>HostIP = ''0.0.0.0'', ContainerPort = 80, HostPort = 8080, Range = 2,
                   Protocol = ''tcp,udp''\<rparr>]
       = [add_hostfwd ''tcp'' ''0.0.0.0'' 8080 80, add_hostfwd ''tcp'' ''0.0.0.0'' 8081 81,
          add_hostfwd ''udp'' ''0.0.0.0'' 8080 80, add_hostfwd ''udp'' ''0.0.0.0'' 8081 81]"
    by (simp add: example_mapping_def)
qed

lemma accepted_example_sock: "accepted example_sock n c"
  by (simp add: accepted_def example_sock_def)

lemma refusing_sock_second:
  "accepted refusing_sock 0 c \<and> \<not> accepted refusing_sock (Suc 0) c"
  by (simp add: accepted_def refusing_sock_def)

lemma open_refusing_second:
  "open_command refusing_sock ''/tmp/ctr.net'' (add_hostfwd ''tcp'' ''0.0.0.0'' 8081 81)
     \<lparr>calls = Suc 0, written = [add_hostfwd ''tcp'' ''0.0.0.0'' 8080 80]\<rparr>
   = (Inl (Errorf ''from slirp4netns while setting up port redirection: %v''
             [Str ''map[desc:bad request]'']),
      \<lparr>calls = 2, written = [add_hostfwd ''tcp'' ''0.0.0.0'' 8080 80,
                              add_hostfwd ''tcp'' ''0.0.0.0'' 8081 81]\<rparr>)"
  by (simp add: open_command_def openSlirp4netnsPort_def add_hostfwd_def afterMarshal_def
        refusing_sock_def Let_def)

text \<open>
  The theorem at the example mapping: on a socket that accepts every command the four
  commands are written; on a socket that refuses the second connection the function
  returns the error of slirp4netns after two.
\<close>

theorem hostfwd_commands_in_order_witness:
  "setupRootlessPortMappingViaSlirp example_sock None [example_mapping] ''/tmp/ctr.net''
       \<lparr>calls = 0, written = []\<rparr>
     = (Inr (), \<lparr>calls = 4, written =
         [add_hostfwd ''tcp'' ''0.0.0.0'' 8080 80, add_hostfwd ''tcp'' ''0.0.0.0'' 8081 81,
          add_hostfwd ''udp'' ''0.0.0.0'' 8080 80, add_hostfwd ''udp'' ''0.0.0.0'' 8081 81]\<rparr>)
   \<and> accepted refusing_sock 0 (add_hostfwd ''tcp'' ''0.0.0.0'' 8080 80)
   \<and> \<not> accepted refusing_sock 1 (add_hostfwd ''tcp'' ''0.0.0.0'' 8081 81)
   \<and> setupRootlessPortMappingViaSlirp refusing_sock None [example_mapping] ''/tmp/ctr.net''
       \<lparr>calls = 0, written = []\<rparr>
     = (Inl (Errorf ''from slirp4netns while setting up port redirection: %v''
               [Str ''map[desc:bad request]'']),
        \<lparr>calls = 2, written =
         [add_hostfwd ''tcp'' ''0.0.0.0'' 8080 80, add_hostfwd ''tcp'' ''0.0.0.0'' 8081 81]\<rparr>)"
proof -
  let ?st = "\<lparr>calls = 0, written = []\<rparr>"
  let ?cs = "expansion [example_mapping]"
  have a: "\<forall>i<length ?cs. accepted example_sock (calls ?st + i) (?cs ! i)"
    by (simp add: accepted_example_sock)
  have b: "1 < length ?cs \<and> (\<forall>i<1. accepted refusing_sock (calls ?st + i) (?cs ! i))
        \<and> \<not> accepted refusing_sock (calls ?st + 1) (?cs ! 1)"
    by (simp add: example_expansion refusing_sock_second)
  from hostfwd_commands_in_order [of "[example_mapping]" example_sock ?st "''/tmp/ctr.net''"] a
  have c: "setupRootlessPortMappingViaSlirp example_sock None [example_mapping] ''/tmp/ctr.net'' ?st
     = (Inr (), ?st\<lparr>calls := calls ?st + length ?cs, written := written ?st @ ?cs\<rparr>)"
    by blast
  from hostfwd_commands_in_order [of "[example_mapping]" refusing_sock ?st "''/tmp/ctr.net''" 1] b
  have d: "setupRootlessPortMappingViaSlirp refusing_sock None [example_mapping] ''/tmp/ctr.net'' ?st
     = open_command refusing_sock ''/tmp/ctr.net'' (?cs ! 1)
         (?st\<lparr>calls := calls ?st + 1, written := written ?st @ take 1 ?cs\<rparr>)"
    by blast
  from b c d show ?thesis
    by (simp add: example_expansion open_refusing_second)
qed

text \<open>
  For the example mapping, the far end answering the second command with an error, the
  function issues two commands and not four.
\<close>

theorem fewer_than_four_commands_counterexample:
  "setupRootlessPortMappingViaSlirp refusing_sock None [example_mapping] ''/tmp/ctr.net''
       \<lparr>calls = 0, written = []\<rparr>
     = (Inl (Errorf ''from slirp4netns while setting up port redirection: %v''
               [Str ''map[desc:bad request]'']),
        \<lparr>calls = 2, written =
         [add_hostfwd ''tcp'' ''0.0.0.0'' 8080 80, add_hostfwd ''tcp'' ''0.0.0.0'' 8081 81]\<rparr>)"
proof -
  have "setupRootlessPortMappingViaSlirp refusing_sock None [example_mapping] ''/tmp/ctr.net''
       \<lparr>calls = 0, written = []\<rparr>
     = open_command refusing_sock ''/tmp/ctr.net'' (expansion [example_mapping] ! 1)
         (issue (take 1 (expansion [example_mapping])) \<lparr>calls = 0, written = []\<rparr>)"
    by (rule setup_stops) (simp_all add: example_expansion refusing_sock_second)
  then show ?thesis
    by (simp add: example_expansion issue_def open_refusing_second)
qed

subsection \<open>The DAD sysctl\<close>









subsection \<open>The reload protocol\<close>

text \<open>
  Claim C8. With port mappings configured, the child IP computed, the socket opened, the
  IP written and the response read: the result is success exactly when the response is
  \<open>OK\<close>, any other response is the operand of the error \<open>port reloading failed: %s\<close>, and
  the actions are one connection, one write, one read and the close, with no retry.
\<close>

theorem reload_response:
  assumes "PortMappings c \<noteq> []"
    and "getRootlessPortChildIP net String6 dflt c (NetworkStatus c) = Inr childIP"
    and "openUnixSocket sock (Join sock [TmpDir (runtime c), ''rp'', ID c]) = None"
    and "Encode sock childIP = None"
    and "ReadAll sock = Inr data"
  shows "fst (reloadRootlessRLKPortMapping net String6 dflt sock c)
           = (if data = ''OK'' then Inr ()
              else Inl (Errorf ''port reloading failed: %s'' [Str data]))
       \<and> (fst (reloadRootlessRLKPortMapping net String6 dflt sock c) = Inr ()) = (data = ''OK'')
       \<and> snd (reloadRootlessRLKPortMapping net String6 dflt sock c)
           = [Connect (Join sock [TmpDir (runtime c), ''rp'', ID c]), EncodeJSON childIP,
              ReadResponse, CloseConn]"
  using assms by (simp add: reloadRootlessRLKPortMapping_def Let_def)

lemma example_childIP:
  "getRootlessPortChildIP example_net no_String6 ''10.0.2.0/24'' example_container
     (NetworkStatus example_container) = Inr ''10.0.2.100''"
  by code_simp

text \<open>The theorem at the responses \<open>OK\<close> and \<open>permission denied\<close>, child IP 10.0.2.100.\<close>

theorem reload_response_witness:
  "reloadRootlessRLKPortMapping example_net no_String6 ''10.0.2.0/24'' (example_rlk ''OK'')
     example_container
   = (Inr (), [Connect ''/tmp/rp/ctr1'', EncodeJSON ''10.0.2.100'', ReadResponse, CloseConn])
   \<and> reloadRootlessRLKPortMapping example_net no_String6 ''10.0.2.0/24''
       (example_rlk ''permission denied'') example_container
   = (Inl (Errorf ''port reloading failed: %s'' [Str ''permission denied'']),
      [Connect ''/tmp/rp/ctr1'', EncodeJSON ''10.0.2.100'', ReadResponse, CloseConn])"
proof -
  have p: "PortMappings example_container \<noteq> []" by (simp add: example_container_def)
  have j: "Join (example_rlk r) [TmpDir (runtime example_container), ''rp'', ID example_container]
      = ''/tmp/rp/ctr1''" for r
    by (simp add: example_rlk_def example_container_def example_runtime_def)
  have o: "openUnixSocket (example_rlk r)
      (Join (example_rlk r) [TmpDir (runtime example_container), ''rp'', ID example_container]) = None"
    for r unfolding j by (simp add: example_rlk_def)
  have e: "Encode (example_rlk r) ''10.0.2.100'' = None" for r by (simp add: example_rlk_def)
  have r: "ReadAll (example_rlk r) = Inr r" for r by (simp add: example_rlk_def)
  from reload_response [OF p example_childIP o e r, of "''OK''"]
    reload_response [OF p example_childIP o e r, of "''permission denied''"]
  show ?thesis by (simp add: j prod_eq_iff)
qed

text \<open>
  Claim C9. With an empty list of port mappings the function returns success with no
  action at all, whatever the container, the socket and the network status are.
\<close>

theorem reload_without_port_mappings:
  assumes "PortMappings c = []"
  shows "reloadRootlessRLKPortMapping net String6 dflt sock c = (Inr (), [])"
  using assms by (simp add: reloadRootlessRLKPortMapping_def)

text \<open>
  The theorem at a container without port mappings whose subnet is fd00::/64: computing
  its child IP would panic, and the reload returns success without any action.
\<close>

theorem reload_without_port_mappings_witness:
  "PortMappings (example_container\<lparr>PortMappings := [], slirp4netnsSubnet := Some subnet_fd00_64\<rparr>) = []
   \<and> getRootlessPortChildIP example_net no_String6 ''10.0.2.0/24''
        (example_container\<lparr>PortMappings := [], slirp4netnsSubnet := Some subnet_fd00_64\<rparr>) []
      = Inl (Panic ''runtime error: index out of range [3] with length 0'')
   \<and> reloadRootlessRLKPortMapping example_net no_String6 ''10.0.2.0/24'' (example_rlk ''OK'')
        (example_container\<lparr>PortMappings := [], slirp4netnsSubnet := Some subnet_fd00_64\<rparr>)
      = (Inr (), [])"
proof -
  have p: "PortMappings (example_container\<lparr>PortMappings := [],
             slirp4netnsSubnet := Some subnet_fd00_64\<rparr>) = []"
    by simp
  have g: "getRootlessPortChildIP example_net no_String6 ''10.0.2.0/24''
        (example_container\<lparr>PortMappings := [], slirp4netnsSubnet := Some subnet_fd00_64\<rparr>) []
      = Inl (Panic ''runtime error: index out of range [3] with length 0'')"
    by (simp add: getRootlessPortChildIP_def example_container_def GetSlirp4netnsIP_def
          slirpSubnetOr_def addToSubnet_def addToIP_def subnet_fd00_64_def To4_def v4InV6Prefix_def)
  from reload_without_port_mappings [OF p] p g show ?thesis by simp
qed

end
